theory Spec2Isabelle
  imports Complex_Main
begin

section \<open>JavaScript values\<close>

text \<open>
  A JavaScript number that may be \<^verbatim>\<open>undefined\<close> is a \<open>real option\<close>
  (\<open>None\<close> is \<^verbatim>\<open>undefined\<close>); rounding of IEEE doubles is not modelled, the
  development only copies and compares numbers. \<^verbatim>\<open>a || d\<close> takes \<open>d\<close> when
  \<open>a\<close> is falsy: \<^verbatim>\<open>undefined\<close>, \<open>0\<close> or the empty string.
\<close>

type_synonym jsnum = "real option"

definition num_or :: "jsnum \<Rightarrow> real \<Rightarrow> real" where
  "num_or v d = (case v of None \<Rightarrow> d | Some r \<Rightarrow> if r = 0 then d else r)"

definition num_truthy :: "jsnum \<Rightarrow> bool" where
  "num_truthy v = (case v of None \<Rightarrow> False | Some r \<Rightarrow> r \<noteq> 0)"

definition str_truthy :: "string option \<Rightarrow> bool" where
  "str_truthy v = (case v of None \<Rightarrow> False | Some s \<Rightarrow> s \<noteq> [])"

definition str_or :: "string option \<Rightarrow> string \<Rightarrow> string" where
  "str_or v d = (case v of None \<Rightarrow> d | Some s \<Rightarrow> if s = [] then d else s)"

text \<open>\<^verbatim>\<open>xs[i]\<close> on an array: \<^verbatim>\<open>undefined\<close> beyond its length.\<close>

definition js_index :: "jsnum list \<Rightarrow> nat \<Rightarrow> jsnum" where
  "js_index xs i = (if i < length xs then xs ! i else None)"

type_synonym vec3 = "jsnum \<times> jsnum \<times> jsnum"
type_synonym quat = "jsnum \<times> jsnum \<times> jsnum \<times> jsnum"

section \<open>The physics engine, as the plugin sees it\<close>

text \<open>
  RAPIER is an external library. Only its interface is modelled: a world is a store of
  rigid bodies and colliders under handles; a descriptor becomes a body or a collider
  under a fresh handle (bodies and colliders are numbered apart, and a handle is not used
  again); removing a body removes the colliders attached to it. A JavaScript reference to
  a body or a collider is its handle.
\<close>

type_synonym handle = nat

datatype body_kind = Fixed | DynamicBody | KinematicPositionBased

record rigid_body =
  rb_kind :: body_kind
  rb_additional_mass :: real
  rb_translation :: vec3
  rb_rotation :: quat
  rb_angvel :: vec3
  rb_linvel :: vec3
  rb_rotations_locked :: bool
  rb_sleeping :: bool

datatype shape =
    Ball real
  | Cuboid real real real
  | Cylinder real real
  | ConvexHull "real list"
  | TriMesh "real list" "nat list"

datatype active_events = NO_EVENTS | COLLISION_EVENTS | CONTACT_FORCE_EVENTS

record collider =
  col_shape :: shape
  col_parent :: "handle option"
  col_active_events :: active_events

record world =
  bodies :: "handle \<rightharpoonup> rigid_body"
  wcolliders :: "handle \<rightharpoonup> collider"
  next_body :: handle
  next_collider :: handle

text \<open>\<^verbatim>\<open>RigidBodyDesc.fixed()\<close>, \<^verbatim>\<open>.dynamic()\<close>: a descriptor at the origin, unrotated, at rest.\<close>

definition body_desc :: "body_kind \<Rightarrow> rigid_body" where
  "body_desc k = \<lparr> rb_kind = k, rb_additional_mass = 0,
     rb_translation = (Some 0, Some 0, Some 0),
     rb_rotation = (Some 0, Some 0, Some 0, Some 1),
     rb_angvel = (Some 0, Some 0, Some 0),
     rb_linvel = (Some 0, Some 0, Some 0),
     rb_rotations_locked = False, rb_sleeping = False \<rparr>"

definition createRigidBody :: "rigid_body \<Rightarrow> world \<Rightarrow> handle \<times> world" where
  "createRigidBody desc w =
     (next_body w, w\<lparr>bodies := (bodies w)(next_body w \<mapsto> desc), next_body := Suc (next_body w)\<rparr>)"

definition createCollider :: "shape \<Rightarrow> handle option \<Rightarrow> world \<Rightarrow> handle \<times> world" where
  "createCollider sh par w =
     (next_collider w,
      w\<lparr>wcolliders := (wcolliders w)(next_collider w \<mapsto>
            \<lparr>col_shape = sh, col_parent = par, col_active_events = NO_EVENTS\<rparr>),
        next_collider := Suc (next_collider w)\<rparr>)"

definition removeRigidBody :: "handle \<Rightarrow> world \<Rightarrow> world" where
  "removeRigidBody b w =
     w\<lparr>bodies := (bodies w)(b := None),
       wcolliders := (\<lambda>h. case wcolliders w h of None \<Rightarrow> None
                        | Some c \<Rightarrow> if col_parent c = Some b then None else Some c)\<rparr>"

definition setActiveEvents :: "active_events \<Rightarrow> handle \<Rightarrow> world \<Rightarrow> world" where
  "setActiveEvents ev h w =
     (case wcolliders w h of None \<Rightarrow> w
      | Some c \<Rightarrow> w\<lparr>wcolliders := (wcolliders w)(h \<mapsto> c\<lparr>col_active_events := ev\<rparr>)\<rparr>)"

text \<open>
  A setter of a body replaces the state under its handle. The callers below check that
  the world still holds the body before the first setter and throw otherwise.
\<close>

definition update_body :: "handle \<Rightarrow> (rigid_body \<Rightarrow> rigid_body) \<Rightarrow> world \<Rightarrow> world" where
  "update_body h f w =
     (case bodies w h of None \<Rightarrow> w | Some b \<Rightarrow> w\<lparr>bodies := (bodies w)(h \<mapsto> f b)\<rparr>)"

definition setTranslation :: "handle \<Rightarrow> vec3 \<Rightarrow> world \<Rightarrow> world" where
  "setTranslation h v = update_body h (\<lambda>b. b\<lparr>rb_translation := v\<rparr>)"

definition setRotation :: "handle \<Rightarrow> quat \<Rightarrow> world \<Rightarrow> world" where
  "setRotation h q = update_body h (\<lambda>b. b\<lparr>rb_rotation := q\<rparr>)"

definition setAngvel :: "handle \<Rightarrow> vec3 \<Rightarrow> world \<Rightarrow> world" where
  "setAngvel h v = update_body h (\<lambda>b. b\<lparr>rb_angvel := v\<rparr>)"

definition setLinvel :: "handle \<Rightarrow> vec3 \<Rightarrow> world \<Rightarrow> world" where
  "setLinvel h v = update_body h (\<lambda>b. b\<lparr>rb_linvel := v\<rparr>)"

definition wakeUp :: "handle \<Rightarrow> world \<Rightarrow> world" where
  "wakeUp h = update_body h (\<lambda>b. b\<lparr>rb_sleeping := False\<rparr>)"

section \<open>Messages, console, and the part of the plugin a component reaches\<close>

text \<open>
  A message received from the network is an object whose payload arrays may be missing
  (\<open>None\<close>): reading an element of a missing array throws a \<^verbatim>\<open>TypeError\<close>.
\<close>

record message =
  action :: string
  inst :: string
  obj :: string
  counter :: int
  pos :: "jsnum list option"
  quat :: "jsnum list option"
  angvel :: "jsnum list option"
  linvel :: "jsnum list option"

datatype log =
    WarnParented string
  | DebugCreating string
  | WarnUnknownMode string string
  | WarnUnknownShape string string
  | DebugRemoving string
  | WarnFellOut string

text \<open>\<^verbatim>\<open>plugin.objects.update(id, fields, true)\<close>: a local update of the host's object.\<close>

record object_update =
  upd_objectID :: string
  upd_x :: "jsnum option"
  upd_height :: "jsnum option"
  upd_y :: "jsnum option"
  upd_quat :: "quat option"

record env =
  world :: world
  instanceID :: string
  numMessagesOut :: nat
  sent :: "message list"
  console :: "log list"
  objectUpdates :: "object_update list"

text \<open>
  \<^verbatim>\<open>TypeError\<close>: an element of \<^verbatim>\<open>undefined\<close> is read. \<^verbatim>\<open>RuntimeError\<close>: a method
  of a body is called after the world has dropped the body (the engine traps).
\<close>

datatype error = TypeError | RuntimeError

text \<open>A call either returns or throws; a throw keeps the mutations made before it.\<close>

datatype 's outcome = Returned 's | Threw error 's

fun resultState :: "'s outcome \<Rightarrow> 's" where
  "resultState (Returned s) = s"
| "resultState (Threw err s) = s"

fun returned :: "'s outcome \<Rightarrow> bool" where
  "returned (Returned s) = True"
| "returned (Threw err s) = False"

section \<open>PhysicsComponent\<close>

text \<open>The fields of the object that the component reads (\<^verbatim>\<open>this.fields\<close>).\<close>

record obj_fields =
  f_name :: string
  f_parent :: "string option"
  f_type :: "string option"
  f_x :: jsnum
  f_height :: jsnum
  f_y :: jsnum
  f_quatX :: jsnum
  f_quatY :: jsnum
  f_quatZ :: jsnum
  f_quatW :: jsnum
  f_scale :: jsnum
  f_scale_x :: jsnum
  f_scale_y :: jsnum
  f_scale_z :: jsnum

text \<open>
  What \<^verbatim>\<open>getField\<close> returns for the settings of the component: a checkbox as its truth
  value, \<open>get_mass\<close> as the result of \<^verbatim>\<open>parseFloat\<close> (\<open>None\<close> when it is not a number).
\<close>

record comp_settings =
  get_enabled :: bool
  get_mode :: "string option"
  get_type :: "string option"
  get_synchronized :: bool
  get_mass :: jsnum
  get_disable_rotation :: bool
  get_click_bounce :: bool

text \<open>
  The members both versions of the class share; \<open>objFields\<close> is \<^verbatim>\<open>this.fields\<close> (the fields
  of the object, above) and \<open>shapeType\<close> is \<^verbatim>\<open>this.type\<close>. \<open>lastUpdateSent\<close> is not
  declared by the class: it is \<^verbatim>\<open>undefined\<close> until the first send; so is
  \<open>synchronized\<close>, which is falsy until the first build.
\<close>

record component_core =
  objectID :: string
  objFields :: obj_fields
  settings :: comp_settings
  body :: "handle option"
  mode :: string
  shapeType :: string
  synchronized :: bool
  mass :: real
  disableRotation :: bool
  bounceOnClick :: bool
  syncCounter :: int
  sendUpdateNextFrame :: bool
  lastUpdateSent :: "int option"

text \<open>The class with a list of colliders (the version with automatic shapes).\<close>

record component = component_core +
  colliders :: "handle list"

text \<open>The class with one collider (\<^verbatim>\<open>src/PhysicsComponent.js\<close>).\<close>

record component_single = component_core +
  collider :: "handle option"

subsection \<open>onRemoteUpdateReceived\<close>

text \<open>The four setters and the wake-up, after the guards; shared by both versions.\<close>

definition applyRemoteState ::
  "handle \<Rightarrow> message \<Rightarrow> 'a component_core_scheme \<Rightarrow> env
     \<Rightarrow> ('a component_core_scheme \<times> env) outcome" where
  "applyRemoteState b data c e =
     (let c1 = c\<lparr>syncCounter := counter data\<rparr> in
      case pos data of None \<Rightarrow> Threw TypeError (c1, e) | Some p \<Rightarrow>
      if bodies (world e) b = None then Threw RuntimeError (c1, e) else
      let e1 = e\<lparr>world := setTranslation b (js_index p 0, js_index p 1, js_index p 2) (world e)\<rparr> in
      case quat data of None \<Rightarrow> Threw TypeError (c1, e1) | Some q \<Rightarrow>
      let e2 = e1\<lparr>world := setRotation b (js_index q 0, js_index q 1, js_index q 2, js_index q 3) (world e1)\<rparr> in
      case angvel data of None \<Rightarrow> Threw TypeError (c1, e2) | Some a \<Rightarrow>
      let e3 = e2\<lparr>world := setAngvel b (js_index a 0, js_index a 1, js_index a 2) (world e2)\<rparr> in
      case linvel data of None \<Rightarrow> Threw TypeError (c1, e3) | Some l \<Rightarrow>
      let e4 = e3\<lparr>world := setLinvel b (js_index l 0, js_index l 1, js_index l 2) (world e3)\<rparr> in
      Returned (c1, e4\<lparr>world := wakeUp b (world e4)\<rparr>))"

definition onRemoteUpdateReceived ::
  "message \<Rightarrow> component \<Rightarrow> env \<Rightarrow> (component \<times> env) outcome" where
  "onRemoteUpdateReceived data c e =
     (case body c of None \<Rightarrow> Returned (c, e) | Some b \<Rightarrow>
      if \<not> synchronized c then Returned (c, e)
      else if counter data < syncCounter c then Returned (c, e)
      else if mode c \<noteq> ''Dynamic'' then Returned (c, e)
      else applyRemoteState b data c e)"

definition onRemoteUpdateReceived_single ::
  "message \<Rightarrow> component_single \<Rightarrow> env \<Rightarrow> (component_single \<times> env) outcome" where
  "onRemoteUpdateReceived_single data c e =
     (case body c of None \<Rightarrow> Returned (c, e) | Some b \<Rightarrow>
      if collider c = None then Returned (c, e)
      else if \<not> synchronized c then Returned (c, e)
      else if counter data < syncCounter c then Returned (c, e)
      else if mode c \<noteq> ''Dynamic'' then Returned (c, e)
      else applyRemoteState b data c e)"

subsection \<open>removePhysics\<close>

definition removePhysics :: "component \<Rightarrow> env \<Rightarrow> component \<times> env" where
  "removePhysics c e =
     (case body c of None \<Rightarrow> (c, e)
      | Some b \<Rightarrow>
          (c\<lparr>body := None, colliders := []\<rparr>,
           e\<lparr>console := console e @ [DebugRemoving (objectID c)],
             world := removeRigidBody b (world e)\<rparr>))"

definition removePhysics_single :: "component_single \<Rightarrow> env \<Rightarrow> component_single \<times> env" where
  "removePhysics_single c e =
     (case body c of None \<Rightarrow> (c, e)
      | Some b \<Rightarrow>
          (c\<lparr>body := None, collider := None\<rparr>,
           e\<lparr>console := console e @ [DebugRemoving (objectID c)],
             world := removeRigidBody b (world e)\<rparr>))"

subsection \<open>createPhysics\<close>

text \<open>The properties read from the Editor; the default shape differs between the versions.\<close>

definition readSettings :: "string \<Rightarrow> 'a component_core_scheme \<Rightarrow> 'a component_core_scheme" where
  "readSettings defaultType c =
     c\<lparr>mode := str_or (get_mode (settings c)) ''Static'',
       shapeType := str_or (get_type (settings c)) defaultType,
       synchronized := get_synchronized (settings c),
       mass := max (1 / 100) (num_or (get_mass (settings c)) 1),
       disableRotation := get_disable_rotation (settings c),
       bounceOnClick := get_click_bounce (settings c),
       syncCounter := 0\<rparr>"

definition resolveAutomatic :: "string \<Rightarrow> string option \<Rightarrow> string \<Rightarrow> string" where
  "resolveAutomatic t ft m =
     (if t = ''Automatic'' \<and> ft = Some ''cylinder'' then ''Cylinder''
      else if t = ''Automatic'' \<and> ft = Some ''cube'' then ''Cube''
      else if t = ''Automatic'' \<and> ft = Some ''sphere'' then ''Sphere''
      else if t = ''Automatic'' \<and> m = ''Static'' then ''Trimesh''
      else if t = ''Automatic'' then ''Convex Hull''
      else t)"

text \<open>The body descriptor of a mode; \<open>None\<close> is the branch \<^verbatim>\<open>Unknown mode!\<close>.\<close>

definition modeDesc :: "string \<Rightarrow> real \<Rightarrow> rigid_body option" where
  "modeDesc m ms =
     (if m = ''Static'' then Some (body_desc Fixed)
      else if m = ''Dynamic'' then Some ((body_desc DynamicBody)\<lparr>rb_additional_mass := ms\<rparr>)
      else None)"

text \<open>Initial position, rotation when the object has one, rotation lock.\<close>

definition placeDesc :: "obj_fields \<Rightarrow> bool \<Rightarrow> rigid_body \<Rightarrow> rigid_body" where
  "placeDesc f lock d =
     (let d1 = d\<lparr>rb_translation := (f_x f, Some (num_or (f_height f) 0), f_y f)\<rparr>;
          d2 = (if num_truthy (f_quatX f) \<or> num_truthy (f_quatY f)
                   \<or> num_truthy (f_quatZ f) \<or> num_truthy (f_quatW f)
                then d1\<lparr>rb_rotation := (Some (num_or (f_quatX f) 0), Some (num_or (f_quatY f) 0),
                                         Some (num_or (f_quatZ f) 0), Some (num_or (f_quatW f) 0))\<rparr>
                else d1)
      in if lock then d2\<lparr>rb_rotations_locked := True\<rparr> else d2)"

text \<open>The primitive shapes of the version with a list of colliders.\<close>

definition sphereShape :: "obj_fields \<Rightarrow> shape" where
  "sphereShape f =
     (let sizeUniform = num_or (f_scale f) 1;
          sizeX = (1 / 2) * num_or (f_scale_x f) 1 * sizeUniform;
          sizeY = (1 / 2) * num_or (f_scale_y f) 1 * sizeUniform;
          sizeZ = (1 / 2) * num_or (f_scale_z f) 1 * sizeUniform
      in Ball (max sizeX (max sizeY sizeZ)))"

definition cubeShape :: "obj_fields \<Rightarrow> shape" where
  "cubeShape f =
     (let sizeUniform = num_or (f_scale f) 1;
          sizeX = 1 * num_or (f_scale_x f) 1 * sizeUniform;
          sizeY = 1 * num_or (f_scale_y f) 1 * sizeUniform;
          sizeZ = 1 * num_or (f_scale_z f) 1 * sizeUniform
      in Cuboid (sizeX / 2) (sizeY / 2) (sizeZ / 2))"

definition cylinderShape :: "obj_fields \<Rightarrow> shape" where
  "cylinderShape f =
     (let sizeUniform = num_or (f_scale f) 1;
          sizeX = (1 / 2) * num_or (f_scale_x f) 1 * sizeUniform;
          sizeY = 1 * num_or (f_scale_y f) 1 * sizeUniform;
          sizeZ = (1 / 2) * num_or (f_scale_z f) 1 * sizeUniform
      in Cylinder (sizeY / 2) (max sizeX sizeZ))"

text \<open>The primitive shapes of the version with one collider: a floor of 0.1 on each size.\<close>

definition sphereShape_single :: "obj_fields \<Rightarrow> shape" where
  "sphereShape_single f =
     (let sizeX = num_or (f_scale_x f) 0;
          sizeY = num_or (f_scale_y f) 0;
          sizeZ = num_or (f_scale_z f) 0;
          minimumSize = 1 / 10;
          diameter = max minimumSize (max sizeX (max sizeY sizeZ))
      in Ball (diameter / 2))"

definition cubeShape_single :: "obj_fields \<Rightarrow> shape" where
  "cubeShape_single f =
     (let minimumSize = 1 / 10;
          sizeX = max minimumSize (num_or (f_scale_x f) 0);
          sizeY = max minimumSize (num_or (f_scale_y f) 0);
          sizeZ = max minimumSize (num_or (f_scale_z f) 0)
      in Cuboid (sizeX / 2) (sizeY / 2) (sizeZ / 2))"

definition cylinderShape_single :: "obj_fields \<Rightarrow> shape" where
  "cylinderShape_single f =
     (let minimumSize = 1 / 10;
          sizeX = max minimumSize (num_or (f_scale_x f) 0);
          sizeY = max minimumSize (num_or (f_scale_y f) 0);
          sizeZ = max minimumSize (num_or (f_scale_z f) 0);
          diameter = max sizeX sizeZ
      in Cylinder (sizeY / 2) (diameter / 2))"

text \<open>
  The end of a build: collision events are enabled on every collider made, then the body
  and the colliders are stored in the component.
\<close>

definition installColliders :: "handle \<Rightarrow> handle list \<Rightarrow> component \<Rightarrow> env \<Rightarrow> component \<times> env" where
  "installColliders b cs c e =
     (c\<lparr>body := Some b, colliders := cs\<rparr>,
      e\<lparr>world := foldl (\<lambda>w h. setActiveEvents COLLISION_EVENTS h w) (world e) cs\<rparr>)"

text \<open>One collider of a primitive shape, attached to the body, then the end of the build.\<close>

definition attachOne :: "shape \<Rightarrow> handle \<Rightarrow> component \<Rightarrow> env \<Rightarrow> component \<times> env" where
  "attachOne sh b c e =
     (let (h, w) = createCollider sh (Some b) (world e)
      in installColliders b [h] c (e\<lparr>world := w\<rparr>))"

text \<open>
  \<^verbatim>\<open>createPhysics\<close> is asynchronous: for a convex hull or a triangle mesh it suspends at
  \<^verbatim>\<open>await getVertices\<close>, holding the body it has already created in the world in a local
  variable. A build is therefore either finished, or waiting with that body.
\<close>

datatype mesh_kind = HullBuild | TrimeshBuild

datatype 's build = Finished 's | Awaiting mesh_kind handle 's

definition createPhysics :: "component \<Rightarrow> env \<Rightarrow> (component \<times> env) build" where
  "createPhysics c0 e0 =
     (let (c1, e1) = removePhysics c0 e0 in
      if \<not> get_enabled (settings c1) then Finished (c1, e1)
      else if str_truthy (f_parent (objFields c1))
        then Finished (c1, e1\<lparr>console := console e1 @ [WarnParented (objectID c1)]\<rparr>)
      else
       (let c2 = readSettings ''Automatic'' c1;
            c = c2\<lparr>shapeType := resolveAutomatic (shapeType c2) (f_type (objFields c2)) (mode c2)\<rparr>;
            e2 = e1\<lparr>console := console e1 @ [DebugCreating (objectID c)]\<rparr>
        in case modeDesc (mode c) (mass c) of
             None \<Rightarrow> Finished (c, e2\<lparr>console := console e2 @ [WarnUnknownMode (objectID c) (mode c)]\<rparr>)
           | Some desc \<Rightarrow>
              (let (b, w) = createRigidBody (placeDesc (objFields c) (disableRotation c) desc) (world e2);
                   e = e2\<lparr>world := w\<rparr>
               in if shapeType c = ''Sphere'' then Finished (attachOne (sphereShape (objFields c)) b c e)
                  else if shapeType c = ''Cube'' then Finished (attachOne (cubeShape (objFields c)) b c e)
                  else if shapeType c = ''Cylinder'' then Finished (attachOne (cylinderShape (objFields c)) b c e)
                  else if shapeType c = ''Convex Hull'' then Awaiting HullBuild b (c, e)
                  else if shapeType c = ''Trimesh'' then Awaiting TrimeshBuild b (c, e)
                  else Finished (attachOne (Cuboid 1 1 1) b c
                         (e\<lparr>console := console e @ [WarnUnknownShape (objectID c) (shapeType c)]\<rparr>)))))"

text \<open>
  What \<^verbatim>\<open>getVertices\<close> resolves to: the vertices and indices of each part of the mesh.
  The vertices are scaled in place three at a time; an incomplete last triple is scaled
  as far as it goes (a write beyond the end of a typed array is dropped).
\<close>

record mesh =
  vertices :: "real list"
  indices :: "nat list"

fun scaleVertices :: "real \<Rightarrow> real \<Rightarrow> real \<Rightarrow> real list \<Rightarrow> real list" where
  "scaleVertices sx sy sz (a # b # c # vs) = a * sx # b * sy # c * sz # scaleVertices sx sy sz vs"
| "scaleVertices sx sy sz [a, b] = [a * sx, b * sy]"
| "scaleVertices sx sy sz [a] = [a * sx]"
| "scaleVertices sx sy sz [] = []"

definition meshShape :: "mesh_kind \<Rightarrow> obj_fields \<Rightarrow> mesh \<Rightarrow> shape" where
  "meshShape k f m =
     (let scaleUniform = num_or (f_scale f) 1;
          scaleX = num_or (f_scale_x f) 1 * scaleUniform;
          scaleY = num_or (f_scale_y f) 1 * scaleUniform;
          scaleZ = num_or (f_scale_z f) 1 * scaleUniform;
          vs = scaleVertices scaleX scaleY scaleZ (vertices m)
      in case k of HullBuild \<Rightarrow> ConvexHull vs | TrimeshBuild \<Rightarrow> TriMesh vs (indices m))"

text \<open>The loop over the parts of the mesh: one collider each, in order.\<close>

fun meshColliders ::
  "mesh_kind \<Rightarrow> obj_fields \<Rightarrow> handle \<Rightarrow> mesh list \<Rightarrow> handle list \<Rightarrow> world \<Rightarrow> handle list \<times> world" where
  "meshColliders k f b [] cs w = (cs, w)"
| "meshColliders k f b (m # ms) cs w =
     (let (h, w') = createCollider (meshShape k f m) (Some b) w
      in meshColliders k f b ms (cs @ [h]) w')"

text \<open>
  The rest of \<^verbatim>\<open>createPhysics\<close> after the \<^verbatim>\<open>await\<close>, run when the vertices arrive, on the
  component and the world as they are then.
\<close>

definition createPhysics_resume ::
  "mesh_kind \<Rightarrow> handle \<Rightarrow> mesh list \<Rightarrow> component \<Rightarrow> env \<Rightarrow> component \<times> env" where
  "createPhysics_resume k b objects c e =
     (let (cs, w) = meshColliders k (objFields c) b objects [] (world e)
      in installColliders b cs c (e\<lparr>world := w\<rparr>))"

text \<open>The version with one collider is synchronous and stores the body at once.\<close>

definition attachOne_single :: "shape \<Rightarrow> handle \<Rightarrow> component_single \<Rightarrow> env \<Rightarrow> component_single \<times> env" where
  "attachOne_single sh b c e =
     (let (h, w) = createCollider sh (Some b) (world e)
      in (c\<lparr>collider := Some h\<rparr>, e\<lparr>world := w\<rparr>))"

definition createPhysics_single :: "component_single \<Rightarrow> env \<Rightarrow> component_single \<times> env" where
  "createPhysics_single c0 e0 =
     (let (c1, e1) = removePhysics_single c0 e0 in
      if \<not> get_enabled (settings c1) then (c1, e1)
      else if str_truthy (f_parent (objFields c1))
        then (c1, e1\<lparr>console := console e1 @ [WarnParented (objectID c1)]\<rparr>)
      else
       (let c2 = readSettings ''Sphere'' c1;
            e2 = e1\<lparr>console := console e1 @ [DebugCreating (objectID c2)]\<rparr>
        in case modeDesc (mode c2) (mass c2) of
             None \<Rightarrow> (c2, e2\<lparr>console := console e2 @ [WarnUnknownMode (objectID c2) (mode c2)]\<rparr>)
           | Some desc \<Rightarrow>
              (let (b, w) = createRigidBody (placeDesc (objFields c2) (disableRotation c2) desc) (world e2);
                   c = c2\<lparr>body := Some b\<rparr>;
                   e = e2\<lparr>world := w\<rparr>
               in if shapeType c = ''Sphere'' then attachOne_single (sphereShape_single (objFields c)) b c e
                  else if shapeType c = ''Cube'' then attachOne_single (cubeShape_single (objFields c)) b c e
                  else if shapeType c = ''Cylinder'' then attachOne_single (cylinderShape_single (objFields c)) b c e
                  else (c, e\<lparr>console := console e @ [WarnUnknownShape (objectID c) (shapeType c)]\<rparr>))))"

subsection \<open>didCollideWithUser, sendUpdate\<close>

definition didCollideWithUser :: "'a component_core_scheme \<Rightarrow> 'a component_core_scheme" where
  "didCollideWithUser c = c\<lparr>sendUpdateNextFrame := True\<rparr>"

text \<open>
  \<^verbatim>\<open>this.lastUpdateSent && now - this.lastUpdateSent < 100\<close>, with \<open>now\<close> the value of
  \<^verbatim>\<open>Date.now()\<close> in milliseconds: a time stamp that is \<^verbatim>\<open>undefined\<close> or 0 is falsy.
\<close>

definition sendingTooQuickly :: "int \<Rightarrow> int option \<Rightarrow> bool" where
  "sendingTooQuickly now l = (case l of None \<Rightarrow> False | Some t \<Rightarrow> t \<noteq> 0 \<and> now - t < 100)"

definition updateMessage :: "string \<Rightarrow> string \<Rightarrow> int \<Rightarrow> rigid_body \<Rightarrow> message" where
  "updateMessage i oid n rb =
     (case rb_translation rb of (tx, ty, tz) \<Rightarrow>
      case rb_rotation rb of (qx, qy, qz, qw) \<Rightarrow>
      case rb_angvel rb of (ax, ay, az) \<Rightarrow>
      case rb_linvel rb of (lx, ly, lz) \<Rightarrow>
        \<lparr>action = ''update'', inst = i, obj = oid, counter = n,
         pos = Some [tx, ty, tz], quat = Some [qx, qy, qz, qw],
         angvel = Some [ax, ay, az], linvel = Some [lx, ly, lz]\<rparr>)"

text \<open>The part of \<^verbatim>\<open>sendUpdate\<close> after the guards that stop at an unloaded object.\<close>

definition broadcastState ::
  "int \<Rightarrow> handle \<Rightarrow> 'a component_core_scheme \<Rightarrow> env \<Rightarrow> ('a component_core_scheme \<times> env) outcome" where
  "broadcastState now b c e =
     (if \<not> synchronized c then Returned (c, e)
      else if mode c \<noteq> ''Dynamic'' then Returned (c, e)
      else if sendingTooQuickly now (lastUpdateSent c) then Returned (c, e)
      else
       (let c1 = c\<lparr>lastUpdateSent := Some now, sendUpdateNextFrame := False,
                     syncCounter := syncCounter c + 1\<rparr>
        in case bodies (world e) b of
             None \<Rightarrow> Threw RuntimeError (c1, e)
           | Some rb \<Rightarrow>
               Returned (c1, e\<lparr>sent := sent e @ [updateMessage (instanceID e) (objectID c1) (syncCounter c1) rb],
                               numMessagesOut := numMessagesOut e + 1\<rparr>)))"

definition sendUpdate :: "int \<Rightarrow> component \<Rightarrow> env \<Rightarrow> (component \<times> env) outcome" where
  "sendUpdate now c e =
     (case body c of None \<Rightarrow> Returned (c, e) | Some b \<Rightarrow> broadcastState now b c e)"

definition sendUpdate_single ::
  "int \<Rightarrow> component_single \<Rightarrow> env \<Rightarrow> (component_single \<times> env) outcome" where
  "sendUpdate_single now c e =
     (case body c of None \<Rightarrow> Returned (c, e)
      | Some b \<Rightarrow> if collider c = None then Returned (c, e) else broadcastState now b c e)"

subsection \<open>loop\<close>

text \<open>\<^verbatim>\<open>translation.y <= -50\<close>: false when the coordinate is \<^verbatim>\<open>undefined\<close>.\<close>

definition fellOut :: "jsnum \<Rightarrow> bool" where
  "fellOut ty = (case ty of None \<Rightarrow> False | Some r \<Rightarrow> r \<le> - 50)"

definition transformUpdate :: "string \<Rightarrow> rigid_body \<Rightarrow> object_update" where
  "transformUpdate oid rb =
     (case rb_translation rb of (tx, ty, tz) \<Rightarrow>
        \<lparr>upd_objectID = oid, upd_x = Some tx, upd_height = Some ty, upd_y = Some tz,
         upd_quat = Some (rb_rotation rb)\<rparr>)"

definition heightUpdate :: "string \<Rightarrow> object_update" where
  "heightUpdate oid =
     \<lparr>upd_objectID = oid, upd_x = None, upd_height = Some (Some 10), upd_y = None, upd_quat = None\<rparr>"

text \<open>
  The per-frame reaction of a component. The rebuild of an object that fell out of the
  world is started and not awaited, so the frame can end with a build that waits.
\<close>

definition loop :: "int \<Rightarrow> component \<Rightarrow> env \<Rightarrow> (component \<times> env) build outcome" where
  "loop now c e =
     (case body c of None \<Rightarrow> Returned (Finished (c, e)) | Some b \<Rightarrow>
      case bodies (world e) b of None \<Rightarrow> Threw RuntimeError (Finished (c, e)) | Some rb \<Rightarrow>
      if rb_sleeping rb then Returned (Finished (c, e))
      else if mode c \<noteq> ''Dynamic'' then Returned (Finished (c, e))
      else
       (let e1 = e\<lparr>objectUpdates := objectUpdates e @ [transformUpdate (objectID c) rb]\<rparr>
        in if fellOut (fst (snd (rb_translation rb))) then
             Returned (createPhysics
               (c\<lparr>objFields := (objFields c)\<lparr>f_height := Some 10\<rparr>\<rparr>)
               (e1\<lparr>console := console e1 @ [WarnFellOut (objectID c)],
                   objectUpdates := objectUpdates e1 @ [heightUpdate (objectID c)]\<rparr>))
           else if sendUpdateNextFrame c then
             (case sendUpdate now c e1 of
                Returned s \<Rightarrow> Returned (Finished s)
              | Threw err s \<Rightarrow> Threw err (Finished s))
           else Returned (Finished (c, e1))))"

section \<open>RapierPhysicsPlugin\<close>

text \<open>
  The members both versions of the plugin share. A component is in the list of physics
  objects once; a call of one of its methods replaces it at its place in the list.
\<close>

record 'c plugin_core =
  penv :: env
  physicsObjects :: "'c list"
  numMessagesIn :: nat
  userCollider :: handle

text \<open>A reference to a component held by a collision record is the component's object ID.\<close>

record active_collision =
  colliderHandle1 :: handle
  colliderHandle2 :: handle
  object1 :: "string option"
  object2 :: "string option"

record collision_event =
  ev_objectID1 :: "string option"
  ev_objectID2 :: "string option"
  ev_colliderID1 :: handle
  ev_colliderID2 :: handle
  ev_started :: bool

text \<open>The plugin that keeps the list of active collisions.\<close>

record plugin = "component plugin_core" +
  activeCollisions :: "active_collision list"
  hookEvents :: "collision_event list"

text \<open>\<^verbatim>\<open>Array.prototype.find\<close>, as the place of the first element found.\<close>

primrec findIndex :: "('a \<Rightarrow> bool) \<Rightarrow> 'a list \<Rightarrow> nat option" where
  "findIndex P [] = None"
| "findIndex P (x # xs) = (if P x then Some 0 else map_option Suc (findIndex P xs))"

subsection \<open>onMessage\<close>

text \<open>
  The two versions of the plugin have the same \<^verbatim>\<open>onMessage\<close>; the method
  \<^verbatim>\<open>onRemoteUpdateReceived\<close> it calls is that of the component class in use.
\<close>

definition onMessage_with ::
  "(message \<Rightarrow> 'c component_core_scheme \<Rightarrow> env \<Rightarrow> ('c component_core_scheme \<times> env) outcome)
     \<Rightarrow> message \<Rightarrow> ('c component_core_scheme, 'z) plugin_core_scheme
     \<Rightarrow> ('c component_core_scheme, 'z) plugin_core_scheme outcome" where
  "onMessage_with handler data p0 =
     (let p = p0\<lparr>numMessagesIn := numMessagesIn p0 + 1\<rparr> in
      if inst data = instanceID (penv p) then Returned p
      else if action data = ''update'' then
        (case findIndex (\<lambda>ob. objectID ob = obj data) (physicsObjects p) of
           None \<Rightarrow> Returned p
         | Some i \<Rightarrow>
            (case handler data (physicsObjects p ! i) (penv p) of
               Returned (c, e) \<Rightarrow> Returned (p\<lparr>physicsObjects := (physicsObjects p)[i := c], penv := e\<rparr>)
             | Threw err (c, e) \<Rightarrow> Threw err (p\<lparr>physicsObjects := (physicsObjects p)[i := c], penv := e\<rparr>)))
      else Returned p)"

definition onMessage :: "message \<Rightarrow> plugin \<Rightarrow> plugin outcome" where
  "onMessage = onMessage_with onRemoteUpdateReceived"

definition onMessage_single ::
  "message \<Rightarrow> component_single plugin_core \<Rightarrow> component_single plugin_core outcome" where
  "onMessage_single = onMessage_with onRemoteUpdateReceived_single"

subsection \<open>The collision events of a frame\<close>

definition samePair :: "handle \<Rightarrow> handle \<Rightarrow> active_collision \<Rightarrow> bool" where
  "samePair colliderID1 colliderID2 c =
     ((colliderHandle1 c = colliderID1 \<and> colliderHandle2 c = colliderID2) \<or>
      (colliderHandle1 c = colliderID2 \<and> colliderHandle2 c = colliderID1))"

text \<open>The callback of \<^verbatim>\<open>drainCollisionEvents\<close> for one event.\<close>

definition onCollisionEvent :: "handle \<Rightarrow> handle \<Rightarrow> bool \<Rightarrow> plugin \<Rightarrow> plugin" where
  "onCollisionEvent colliderID1 colliderID2 started p =
     (let i1 = findIndex (\<lambda>ob. colliderID1 \<in> set (colliders ob)) (physicsObjects p);
          object1currentUser = (colliderID1 = userCollider p);
          i2 = findIndex (\<lambda>ob. colliderID2 \<in> set (colliders ob)) (physicsObjects p);
          object2currentUser = (colliderID2 = userCollider p);
          id1 = map_option (\<lambda>i. objectID (physicsObjects p ! i)) i1;
          id2 = map_option (\<lambda>i. objectID (physicsObjects p ! i)) i2;
          p1 = (if started
                then p\<lparr>activeCollisions := activeCollisions p @
                        [\<lparr>colliderHandle1 = colliderID1, colliderHandle2 = colliderID2,
                          object1 = id1, object2 = id2\<rparr>]\<rparr>
                else p\<lparr>activeCollisions :=
                        filter (\<lambda>c. \<not> samePair colliderID1 colliderID2 c) (activeCollisions p)\<rparr>);
          p2 = (if object1currentUser \<or> object2currentUser
                then (case (if object1currentUser then i2 else i1) of
                        None \<Rightarrow> p1
                      | Some i \<Rightarrow>
                          if started
                          then p1\<lparr>physicsObjects :=
                                  (physicsObjects p1)[i := didCollideWithUser (physicsObjects p1 ! i)]\<rparr>
                          else p1)
                else p1)
      in p2\<lparr>hookEvents := hookEvents p2 @
              [\<lparr>ev_objectID1 = (if object1currentUser then Some ''currentuser'' else id1),
                ev_objectID2 = (if object2currentUser then Some ''currentuser'' else id2),
                ev_colliderID1 = colliderID1, ev_colliderID2 = colliderID2,
                ev_started = started\<rparr>]\<rparr>)"

text \<open>The queue is drained in order: the callback runs once for each event.\<close>

fun drainCollisionEvents :: "(handle \<times> handle \<times> bool) list \<Rightarrow> plugin \<Rightarrow> plugin" where
  "drainCollisionEvents [] p = p"
| "drainCollisionEvents ((h1, h2, started) # evs) p =
     drainCollisionEvents evs (onCollisionEvent h1 h2 started p)"

section \<open>Example objects\<close>

text \<open>
  The world as \<^verbatim>\<open>onLoad\<close> of the plugin leaves it: the ground, and the body and the
  collider of the current user.
\<close>

definition emptyWorld :: world where
  "emptyWorld = \<lparr>bodies = Map.empty, wcolliders = Map.empty, next_body = 0, next_collider = 0\<rparr>"

definition loadedWorld :: world where
  "loadedWorld =
     (let (g, w1) = createCollider (Cuboid 100000 (1 / 10) 100000) None emptyWorld;
          (ub, w2) = createRigidBody (body_desc KinematicPositionBased) w1;
          (uc, w3) = createCollider (Cylinder (9 / 10) (1 / 2)) (Some ub) w2
      in setActiveEvents COLLISION_EVENTS uc w3)"

definition loadedEnv :: env where
  "loadedEnv = \<lparr>world = loadedWorld, instanceID = ''A'', numMessagesOut = 0, sent = [],
                 console = [], objectUpdates = []\<rparr>"

definition plainFields :: obj_fields where
  "plainFields = \<lparr>f_name = ''crate'', f_parent = None, f_type = None,
     f_x = Some 0, f_height = Some 10, f_y = Some 0,
     f_quatX = None, f_quatY = None, f_quatZ = None, f_quatW = None,
     f_scale = None, f_scale_x = None, f_scale_y = None, f_scale_z = None\<rparr>"

definition editorSettings :: "bool \<Rightarrow> string \<Rightarrow> string \<Rightarrow> comp_settings" where
  "editorSettings en m t = \<lparr>get_enabled = en, get_mode = Some m, get_type = Some t,
     get_synchronized = True, get_mass = Some 2, get_disable_rotation = False,
     get_click_bounce = False\<rparr>"

text \<open>A component as its class initialises it, before \<^verbatim>\<open>onLoad\<close>.\<close>

definition newComponent :: "string \<Rightarrow> obj_fields \<Rightarrow> comp_settings \<Rightarrow> component" where
  "newComponent oid f st = \<lparr>objectID = oid, objFields = f, settings = st, body = None,
     mode = ''Static'', shapeType = ''Sphere'', synchronized = False, mass = 1,
     disableRotation = False, bounceOnClick = False, syncCounter = 0,
     sendUpdateNextFrame = False, lastUpdateSent = None, colliders = []\<rparr>"

definition newComponent_single :: "string \<Rightarrow> obj_fields \<Rightarrow> comp_settings \<Rightarrow> component_single" where
  "newComponent_single oid f st = \<lparr>objectID = oid, objFields = f, settings = st, body = None,
     mode = ''Static'', shapeType = ''Sphere'', synchronized = False, mass = 1,
     disableRotation = False, bounceOnClick = False, syncCounter = 0,
     sendUpdateNextFrame = False, lastUpdateSent = None, collider = None\<rparr>"

text \<open>An update from another instance, with a counter.\<close>

definition remoteUpdate :: "string \<Rightarrow> int \<Rightarrow> message" where
  "remoteUpdate oid n = \<lparr>action = ''update'', inst = ''B'', obj = oid, counter = n,
     pos = Some [Some 1, Some 1, Some 1], quat = Some [Some 0, Some 0, Some 0, Some 1],
     angvel = Some [Some 0, Some 0, Some 0], linvel = Some [Some 0, Some 3, Some 0]\<rparr>"

text \<open>The state a build leaves, finished or waiting.\<close>

fun stateOf :: "'s build \<Rightarrow> 's" where
  "stateOf (Finished s) = s"
| "stateOf (Awaiting k b s) = s"

text \<open>A synchronized dynamic sphere, built in the loaded world.\<close>

definition sphereBuilt :: "component \<times> env" where
  "sphereBuilt = stateOf (createPhysics
     (newComponent ''o1'' plainFields (editorSettings True ''Dynamic'' ''Sphere'')) loadedEnv)"

text \<open>
  The same object under the class with one collider, and a dynamic object whose shape
  that class does not know: it is left with a body and no collider.
\<close>

definition sphereBuilt_single :: "component_single \<times> env" where
  "sphereBuilt_single = createPhysics_single
     (newComponent_single ''o1'' plainFields (editorSettings True ''Dynamic'' ''Sphere'')) loadedEnv"

definition pyramidObject_single :: component_single where
  "pyramidObject_single =
     newComponent_single ''o1'' plainFields (editorSettings True ''Dynamic'' ''Pyramid'')"

definition pyramidBuilt_single :: "component_single \<times> env" where
  "pyramidBuilt_single = createPhysics_single pyramidObject_single loadedEnv"

text \<open>
  The sphere after some traffic (its counter is 5), and then with physics disabled in the
  Editor, or the object parented.
\<close>

definition sphereUsed :: component where
  "sphereUsed = (fst sphereBuilt)\<lparr>syncCounter := 5\<rparr>"

definition sphereUsed_single :: component_single where
  "sphereUsed_single = (fst sphereBuilt_single)\<lparr>syncCounter := 5\<rparr>"

definition sphereDisabled :: component where
  "sphereDisabled = sphereUsed\<lparr>settings := editorSettings False ''Dynamic'' ''Sphere''\<rparr>"

text \<open>A static sphere: it has a body, and it is never broadcast.\<close>

definition staticBuilt :: "component \<times> env" where
  "staticBuilt = stateOf (createPhysics
     (newComponent ''o2'' plainFields (editorSettings True ''Static'' ''Sphere'')) loadedEnv)"

text \<open>
  The sphere broadcast at time 1000, then touched by the user: the flag is set while the
  window of 100 ms is open.
\<close>

definition sphereSent :: "component \<times> env" where
  "sphereSent = resultState (sendUpdate 1000 (fst sphereBuilt) (snd sphereBuilt))"

definition sphereTouched :: component where
  "sphereTouched = didCollideWithUser (fst sphereSent)"

text \<open>
  The plugin with the sphere loaded. The ground is collider 0, the user collider 1, the
  sphere collider 2. Then the plugin after four collisions have started: user and sphere,
  sphere and ground, sphere and user (reported in the other order), ground and user.
\<close>

definition loadedPlugin :: plugin where
  "loadedPlugin = \<lparr>penv = snd sphereBuilt, physicsObjects = [fst sphereBuilt],
     numMessagesIn = 0, userCollider = 1, activeCollisions = [], hookEvents = []\<rparr>"

definition touchingPlugin :: plugin where
  "touchingPlugin = drainCollisionEvents
     [(1, 2, True), (2, 0, True), (2, 1, True), (0, 1, True)] loadedPlugin"

definition loadedPlugin_single :: "component_single plugin_core" where
  "loadedPlugin_single = \<lparr>penv = snd sphereBuilt_single, physicsObjects = [fst sphereBuilt_single],
     numMessagesIn = 0, userCollider = 1\<rparr>"

text \<open>Messages that are dropped: our own echo, an unknown action, an unknown object.\<close>

definition echoMessage :: message where
  "echoMessage = (remoteUpdate ''o1'' 9)\<lparr>inst := ''A''\<rparr>"

definition pingMessage :: message where
  "pingMessage = (remoteUpdate ''o1'' 9)\<lparr>action := ''ping'', pos := None\<rparr>"

definition strayMessage :: message where
  "strayMessage = remoteUpdate ''o7'' 9"

text \<open>
  An object set to each of the three modes the Editor offers, with a sphere as its shape,
  before it is built.
\<close>

definition modeObject :: "string \<Rightarrow> component" where
  "modeObject m = newComponent ''o3'' plainFields (editorSettings True m ''Sphere'')"

definition modeObject_single :: "string \<Rightarrow> component_single" where
  "modeObject_single m = newComponent_single ''o3'' plainFields (editorSettings True m ''Sphere'')"

text \<open>A dynamic object whose shape is none of the known ones.\<close>

definition pyramidObject :: component where
  "pyramidObject = newComponent ''o1'' plainFields (editorSettings True ''Dynamic'' ''Pyramid'')"

text \<open>
  A dynamic object with a convex hull, and the mesh its vertices come from. The object is
  loaded, and updated on the server before the vertices of the first build have arrived:
  \<^verbatim>\<open>createPhysics\<close> runs twice up to its \<^verbatim>\<open>await\<close>, then the two builds resume, in the
  order given.
\<close>

definition hullObject :: component where
  "hullObject = newComponent ''o4'' plainFields (editorSettings True ''Dynamic'' ''Convex Hull'')"

definition tetrahedron :: "mesh list" where
  "tetrahedron = [\<lparr>vertices = [0, 0, 0, 1, 0, 0, 0, 1, 0, 0, 0, 1], indices = [0, 1, 2, 0, 1, 3, 0, 2, 3, 1, 2, 3]\<rparr>]"

definition rebuildDuringBuild :: "bool \<Rightarrow> component \<Rightarrow> env \<Rightarrow> mesh list \<Rightarrow> component \<times> env" where
  "rebuildDuringBuild firstResumesFirst c e objects =
     (case createPhysics c e of
        Finished (c1, e1) \<Rightarrow> stateOf (createPhysics c1 e1)
      | Awaiting k1 b1 (c1, e1) \<Rightarrow>
         (case createPhysics c1 e1 of
            Finished (c2, e2) \<Rightarrow> createPhysics_resume k1 b1 objects c2 e2
          | Awaiting k2 b2 (c2, e2) \<Rightarrow>
              if firstResumesFirst
              then (case createPhysics_resume k1 b1 objects c2 e2 of
                      (c3, e3) \<Rightarrow> createPhysics_resume k2 b2 objects c3 e3)
              else (case createPhysics_resume k2 b2 objects c2 e2 of
                      (c3, e3) \<Rightarrow> createPhysics_resume k1 b1 objects c3 e3)))"

text \<open>
  An update that moves, turns and pushes the object, with a different number in every
  place of its payload; the sphere after it has merged that update, in both classes; and
  that sphere touched by the user, so that its flag is set.
\<close>

definition movingUpdate :: message where
  "movingUpdate = \<lparr>action = ''update'', inst = ''B'', obj = ''o1'', counter = 4,
     pos = Some [Some 1, Some 2, Some 3],
     quat = Some [Some (2 / 9), Some (4 / 9), Some (5 / 9), Some (2 / 3)],
     angvel = Some [Some 7, Some 8, Some 9], linvel = Some [Some 10, Some 11, Some 12]\<rparr>"

definition sphereMoved :: "component \<times> env" where
  "sphereMoved = resultState (onRemoteUpdateReceived movingUpdate (fst sphereBuilt) (snd sphereBuilt))"

definition sphereMoved_single :: "component_single \<times> env" where
  "sphereMoved_single = resultState
     (onRemoteUpdateReceived_single movingUpdate (fst sphereBuilt_single) (snd sphereBuilt_single))"

definition sphereMovedTouched :: component where
  "sphereMovedTouched = didCollideWithUser (fst sphereMoved)"

definition sphereMovedTouched_single :: component_single where
  "sphereMovedTouched_single = didCollideWithUser (fst sphereMoved_single)"

definition movedBody :: rigid_body where
  "movedBody = \<lparr>rb_kind = DynamicBody, rb_additional_mass = 2,
     rb_translation = (Some 1, Some 2, Some 3),
     rb_rotation = (Some (2 / 9), Some (4 / 9), Some (5 / 9), Some (2 / 3)),
     rb_angvel = (Some 7, Some 8, Some 9), rb_linvel = (Some 10, Some 11, Some 12),
     rb_rotations_locked = False, rb_sleeping = False\<rparr>"


section \<open>Properties\<close>

subsection \<open>Evaluation of the examples\<close>

lemmas example_defs =
  createPhysics_def createPhysics_single_def removePhysics_def removePhysics_single_def
  newComponent_def newComponent_single_def plainFields_def editorSettings_def loadedEnv_def
  loadedWorld_def emptyWorld_def readSettings_def resolveAutomatic_def modeDesc_def placeDesc_def
  createRigidBody_def createCollider_def setActiveEvents_def body_desc_def attachOne_def
  attachOne_single_def installColliders_def sphereShape_def sphereShape_single_def
  str_or_def str_truthy_def num_or_def num_truthy_def remoteUpdate_def Let_def

lemma sphereBuilt_eval:
  "body (fst sphereBuilt) = Some 1 \<and> colliders (fst sphereBuilt) = [2]
   \<and> synchronized (fst sphereBuilt) \<and> mode (fst sphereBuilt) = ''Dynamic''
   \<and> syncCounter (fst sphereBuilt) = 0 \<and> objectID (fst sphereBuilt) = ''o1''
   \<and> \<not> sendUpdateNextFrame (fst sphereBuilt) \<and> lastUpdateSent (fst sphereBuilt) = None
   \<and> bodies (world (snd sphereBuilt)) 1 =
       Some ((body_desc DynamicBody)\<lparr>rb_additional_mass := 2,
               rb_translation := (Some 0, Some 10, Some 0)\<rparr>)
   \<and> sent (snd sphereBuilt) = [] \<and> instanceID (snd sphereBuilt) = ''A''"
  by (simp add: sphereBuilt_def example_defs)

lemma sphereBuilt_single_eval:
  "body (fst sphereBuilt_single) = Some 1 \<and> collider (fst sphereBuilt_single) = Some 2
   \<and> synchronized (fst sphereBuilt_single) \<and> mode (fst sphereBuilt_single) = ''Dynamic''
   \<and> syncCounter (fst sphereBuilt_single) = 0 \<and> objectID (fst sphereBuilt_single) = ''o1''
   \<and> \<not> sendUpdateNextFrame (fst sphereBuilt_single) \<and> lastUpdateSent (fst sphereBuilt_single) = None
   \<and> bodies (world (snd sphereBuilt_single)) 1 =
       Some ((body_desc DynamicBody)\<lparr>rb_additional_mass := 2,
               rb_translation := (Some 0, Some 10, Some 0)\<rparr>)
   \<and> sent (snd sphereBuilt_single) = [] \<and> instanceID (snd sphereBuilt_single) = ''A''"
  by (simp add: sphereBuilt_single_def example_defs)

lemma pyramidBuilt_single_eval:
  "body (fst pyramidBuilt_single) = Some 1 \<and> collider (fst pyramidBuilt_single) = None
   \<and> synchronized (fst pyramidBuilt_single) \<and> mode (fst pyramidBuilt_single) = ''Dynamic''
   \<and> shapeType (fst pyramidBuilt_single) = ''Pyramid''
   \<and> syncCounter (fst pyramidBuilt_single) = 0
   \<and> bodies (world (snd pyramidBuilt_single)) 1 \<noteq> None
   \<and> next_collider (world (snd pyramidBuilt_single)) = next_collider loadedWorld
   \<and> console (snd pyramidBuilt_single) = [DebugCreating ''o1'', WarnUnknownShape ''o1'' ''Pyramid'']"
  by (simp add: pyramidBuilt_single_def pyramidObject_single_def example_defs)

lemma staticBuilt_eval:
  "body (fst staticBuilt) = Some 1 \<and> synchronized (fst staticBuilt) \<and> mode (fst staticBuilt) = ''Static''
   \<and> syncCounter (fst staticBuilt) = 0
   \<and> map_option rb_kind (bodies (world (snd staticBuilt)) 1) = Some Fixed"
  by (simp add: staticBuilt_def example_defs)

lemma remoteUpdate_fields:
  "counter (remoteUpdate oid n) = n" "obj (remoteUpdate oid n) = oid"
  "inst (remoteUpdate oid n) = ''B''" "action (remoteUpdate oid n) = ''update''"
  "pos (remoteUpdate oid n) = Some [Some 1, Some 1, Some 1]"
  "quat (remoteUpdate oid n) = Some [Some 0, Some 0, Some 0, Some 1]"
  "angvel (remoteUpdate oid n) = Some [Some 0, Some 0, Some 0]"
  "linvel (remoteUpdate oid n) = Some [Some 0, Some 3, Some 0]"
  by (simp_all add: remoteUpdate_def)

lemma sphereUsed_facts:
  "syncCounter sphereUsed = 5" "get_enabled (settings sphereUsed)"
  "\<not> str_truthy (f_parent (objFields sphereUsed))"
  "syncCounter sphereUsed_single = 5" "get_enabled (settings sphereUsed_single)"
  "\<not> str_truthy (f_parent (objFields sphereUsed_single))"
  by (simp_all add: sphereUsed_def sphereUsed_single_def sphereBuilt_def sphereBuilt_single_def
      example_defs)

subsection \<open>Merging a remote update\<close>

lemma applyRemoteState_live:
  assumes "bodies (world e) b = Some rb"
    "pos m = Some p" "quat m = Some q" "angvel m = Some a" "linvel m = Some l"
  shows "applyRemoteState b m c e =
     Returned (c\<lparr>syncCounter := counter m\<rparr>,
       e\<lparr>world := (world e)\<lparr>bodies := (bodies (world e))(b \<mapsto>
          rb\<lparr>rb_translation := (js_index p 0, js_index p 1, js_index p 2),
             rb_rotation := (js_index q 0, js_index q 1, js_index q 2, js_index q 3),
             rb_angvel := (js_index a 0, js_index a 1, js_index a 2),
             rb_linvel := (js_index l 0, js_index l 1, js_index l 2),
             rb_sleeping := False\<rparr>)\<rparr>\<rparr>)"
  using assms
  by (simp add: applyRemoteState_def Let_def setTranslation_def setRotation_def setAngvel_def
      setLinvel_def wakeUp_def update_body_def)

text \<open>In the class with one collider, an object without its collider ignores every update.\<close>

lemma onRemoteUpdateReceived_single_no_collider:
  "collider cs = None \<Longrightarrow> onRemoteUpdateReceived_single m cs e = Returned (cs, e)"
  by (simp add: onRemoteUpdateReceived_single_def split: option.splits)

text \<open>
  C1, as the code has it. In the class with one collider an object that has a body and no
  collider (its shape was not known) ignores every remote update, so the claim holds there
  only for an object that also has its collider. For an object whose body is in the world,
  that is synchronized and dynamic, and a message with all four arrays whose counter is not
  below the local one (an equal counter is accepted), \<^verbatim>\<open>onRemoteUpdateReceived\<close> returns,
  sets the sync counter to the counter of the message, overwrites translation, rotation,
  angular and linear velocity of the body with the elements of the arrays, and wakes the
  body; nothing else changes.
\<close>

theorem remote_update_applied:
  "(body c = Some b \<and> bodies (world e) b = Some rb \<and> synchronized c \<and> mode c = ''Dynamic''
      \<and> syncCounter c \<le> counter m
      \<and> pos m = Some p \<and> quat m = Some q \<and> angvel m = Some a \<and> linvel m = Some l
    \<longrightarrow> onRemoteUpdateReceived m c e =
     Returned (c\<lparr>syncCounter := counter m\<rparr>,
       e\<lparr>world := (world e)\<lparr>bodies := (bodies (world e))(b \<mapsto>
          rb\<lparr>rb_translation := (js_index p 0, js_index p 1, js_index p 2),
             rb_rotation := (js_index q 0, js_index q 1, js_index q 2, js_index q 3),
             rb_angvel := (js_index a 0, js_index a 1, js_index a 2),
             rb_linvel := (js_index l 0, js_index l 1, js_index l 2),
             rb_sleeping := False\<rparr>)\<rparr>\<rparr>))
  \<and> (body cs = Some b \<and> collider cs \<noteq> None \<and> bodies (world e) b = Some rb
      \<and> synchronized cs \<and> mode cs = ''Dynamic'' \<and> syncCounter cs \<le> counter m
      \<and> pos m = Some p \<and> quat m = Some q \<and> angvel m = Some a \<and> linvel m = Some l
    \<longrightarrow> onRemoteUpdateReceived_single m cs e =
     Returned (cs\<lparr>syncCounter := counter m\<rparr>,
       e\<lparr>world := (world e)\<lparr>bodies := (bodies (world e))(b \<mapsto>
          rb\<lparr>rb_translation := (js_index p 0, js_index p 1, js_index p 2),
             rb_rotation := (js_index q 0, js_index q 1, js_index q 2, js_index q 3),
             rb_angvel := (js_index a 0, js_index a 1, js_index a 2),
             rb_linvel := (js_index l 0, js_index l 1, js_index l 2),
             rb_sleeping := False\<rparr>)\<rparr>\<rparr>))"
  by (auto simp: onRemoteUpdateReceived_def onRemoteUpdateReceived_single_def applyRemoteState_live)

text \<open>
  C1, witness: the built sphere takes an update with an equal counter (0) in the class with
  a list of colliders, and one with counter 7 in the class with one collider.
\<close>

theorem remote_update_applied_witness:
  "syncCounter (fst sphereBuilt) \<le> counter (remoteUpdate ''o1'' 0)
   \<and> returned (onRemoteUpdateReceived (remoteUpdate ''o1'' 0) (fst sphereBuilt) (snd sphereBuilt))
   \<and> syncCounter (fst (resultState
         (onRemoteUpdateReceived (remoteUpdate ''o1'' 0) (fst sphereBuilt) (snd sphereBuilt)))) = 0
   \<and> map_option rb_translation (bodies (world (snd (resultState
         (onRemoteUpdateReceived (remoteUpdate ''o1'' 0) (fst sphereBuilt) (snd sphereBuilt))))) 1)
       = Some (Some 1, Some 1, Some 1)
   \<and> collider (fst sphereBuilt_single) \<noteq> None
   \<and> returned (onRemoteUpdateReceived_single (remoteUpdate ''o1'' 7) (fst sphereBuilt_single) (snd sphereBuilt_single))
   \<and> syncCounter (fst (resultState
         (onRemoteUpdateReceived_single (remoteUpdate ''o1'' 7) (fst sphereBuilt_single) (snd sphereBuilt_single)))) = 7
   \<and> map_option rb_linvel (bodies (world (snd (resultState
         (onRemoteUpdateReceived_single (remoteUpdate ''o1'' 7) (fst sphereBuilt_single) (snd sphereBuilt_single))))) 1)
       = Some (Some 0, Some 3, Some 0)"
proof -
  note new = remote_update_applied[where c = "fst sphereBuilt" and e = "snd sphereBuilt" and b = 1
      and m = "remoteUpdate ''o1'' 0"
      and rb = "(body_desc DynamicBody)\<lparr>rb_additional_mass := 2, rb_translation := (Some 0, Some 10, Some 0)\<rparr>"
      and p = "[Some 1, Some 1, Some 1]" and q = "[Some 0, Some 0, Some 0, Some 1]"
      and a = "[Some 0, Some 0, Some 0]" and l = "[Some 0, Some 3, Some 0]", THEN conjunct1]
  note old = remote_update_applied[where cs = "fst sphereBuilt_single" and e = "snd sphereBuilt_single" and b = 1
      and m = "remoteUpdate ''o1'' 7"
      and rb = "(body_desc DynamicBody)\<lparr>rb_additional_mass := 2, rb_translation := (Some 0, Some 10, Some 0)\<rparr>"
      and p = "[Some 1, Some 1, Some 1]" and q = "[Some 0, Some 0, Some 0, Some 1]"
      and a = "[Some 0, Some 0, Some 0]" and l = "[Some 0, Some 3, Some 0]", THEN conjunct2]
  from new old sphereBuilt_eval sphereBuilt_single_eval show ?thesis
    by (simp add: remoteUpdate_fields js_index_def)
qed

text \<open>
  C1, counterexample: in the class with one collider, a synchronized dynamic object built
  with the unknown shape \<open>Pyramid\<close> has a body in the world and no collider. An update with
  counter 7, above its counter 0, is ignored: the call returns the state it was given.
\<close>

theorem remote_update_ignored_without_collider:
  "body (fst pyramidBuilt_single) = Some 1
   \<and> bodies (world (snd pyramidBuilt_single)) 1 \<noteq> None
   \<and> synchronized (fst pyramidBuilt_single)
   \<and> mode (fst pyramidBuilt_single) = ''Dynamic''
   \<and> syncCounter (fst pyramidBuilt_single) \<le> counter (remoteUpdate ''o1'' 7)
   \<and> onRemoteUpdateReceived_single (remoteUpdate ''o1'' 7) (fst pyramidBuilt_single) (snd pyramidBuilt_single)
       = Returned pyramidBuilt_single
   \<and> syncCounter (fst pyramidBuilt_single) \<noteq> counter (remoteUpdate ''o1'' 7)"
  using pyramidBuilt_single_eval
  by (simp add: onRemoteUpdateReceived_single_def remoteUpdate_def)

text \<open>
  C2: a message whose counter is below the local sync counter leaves the component and the
  world as they are, and so does any message when the object has no body, is not
  synchronized, or is not dynamic; in both classes. The call returns: nothing is thrown,
  whatever the payload.
\<close>

theorem stale_or_ineligible_update_ignored:
  "(counter m < syncCounter c \<or> body c = None \<or> \<not> synchronized c \<or> mode c \<noteq> ''Dynamic''
      \<longrightarrow> onRemoteUpdateReceived m c e = Returned (c, e))
   \<and> (counter m < syncCounter cs \<or> body cs = None \<or> \<not> synchronized cs \<or> mode cs \<noteq> ''Dynamic''
      \<longrightarrow> onRemoteUpdateReceived_single m cs e = Returned (cs, e))"
  by (auto simp: onRemoteUpdateReceived_def onRemoteUpdateReceived_single_def split: option.splits)

text \<open>
  C2, witness: counter 3 against a local counter 5 (both classes), and a static object.
\<close>

theorem stale_or_ineligible_update_ignored_witness:
  "counter (remoteUpdate ''o1'' 3) < syncCounter sphereUsed
   \<and> onRemoteUpdateReceived (remoteUpdate ''o1'' 3) sphereUsed (snd sphereBuilt)
       = Returned (sphereUsed, snd sphereBuilt)
   \<and> mode (fst staticBuilt) \<noteq> ''Dynamic''
   \<and> onRemoteUpdateReceived (remoteUpdate ''o2'' 3) (fst staticBuilt) (snd staticBuilt)
       = Returned (fst staticBuilt, snd staticBuilt)
   \<and> counter (remoteUpdate ''o1'' 3) < syncCounter sphereUsed_single
   \<and> onRemoteUpdateReceived_single (remoteUpdate ''o1'' 3) sphereUsed_single (snd sphereBuilt_single)
       = Returned (sphereUsed_single, snd sphereBuilt_single)"
  using stale_or_ineligible_update_ignored[where m = "remoteUpdate ''o1'' 3" and c = sphereUsed
      and e = "snd sphereBuilt", THEN conjunct1]
    stale_or_ineligible_update_ignored[where m = "remoteUpdate ''o2'' 3" and c = "fst staticBuilt"
      and e = "snd staticBuilt", THEN conjunct1]
    stale_or_ineligible_update_ignored[where m = "remoteUpdate ''o1'' 3" and cs = sphereUsed_single
      and e = "snd sphereBuilt_single", THEN conjunct2]
    staticBuilt_eval
  by (simp add: remoteUpdate_fields sphereUsed_def sphereUsed_single_def)

subsection \<open>The sync counter across a rebuild\<close>

lemma removePhysics_keeps:
  "syncCounter (fst (removePhysics c e)) = syncCounter c
   \<and> settings (fst (removePhysics c e)) = settings c
   \<and> objFields (fst (removePhysics c e)) = objFields c
   \<and> sendUpdateNextFrame (fst (removePhysics c e)) = sendUpdateNextFrame c
   \<and> sent (snd (removePhysics c e)) = sent e"
  by (simp add: removePhysics_def split: option.splits)

lemma removePhysics_single_keeps:
  "syncCounter (fst (removePhysics_single c e)) = syncCounter c
   \<and> settings (fst (removePhysics_single c e)) = settings c
   \<and> objFields (fst (removePhysics_single c e)) = objFields c
   \<and> sendUpdateNextFrame (fst (removePhysics_single c e)) = sendUpdateNextFrame c
   \<and> sent (snd (removePhysics_single c e)) = sent e"
  by (simp add: removePhysics_single_def split: option.splits)

lemma createPhysics_syncCounter:
  "syncCounter (fst (stateOf (createPhysics c e))) =
     (if get_enabled (settings c) \<and> \<not> str_truthy (f_parent (objFields c)) then 0 else syncCounter c)"
  using removePhysics_keeps[of c e]
  by (cases "removePhysics c e")
     (simp add: createPhysics_def Let_def readSettings_def attachOne_def installColliders_def
        split: option.splits prod.splits)

lemma createPhysics_single_syncCounter:
  "syncCounter (fst (createPhysics_single c e)) =
     (if get_enabled (settings c) \<and> \<not> str_truthy (f_parent (objFields c)) then 0 else syncCounter c)"
  using removePhysics_single_keeps[of c e]
  by (cases "removePhysics_single c e")
     (simp add: createPhysics_single_def Let_def readSettings_def attachOne_single_def
        split: option.splits prod.splits)

lemma createPhysics_resume_syncCounter:
  "syncCounter (fst (createPhysics_resume k b ms c e)) = syncCounter c"
  by (simp add: createPhysics_resume_def installColliders_def split: prod.splits)

lemma createPhysics_keeps_flag:
  "sendUpdateNextFrame (fst (stateOf (createPhysics c e))) = sendUpdateNextFrame c
   \<and> sent (snd (stateOf (createPhysics c e))) = sent e"
  using removePhysics_keeps[of c e]
  by (cases "removePhysics c e")
     (simp add: createPhysics_def Let_def readSettings_def attachOne_def installColliders_def
        split: option.splits prod.splits)

text \<open>
  C3, counterexample: the sphere with sync counter 5, after physics is disabled for it in
  the Editor. \<^verbatim>\<open>createPhysics\<close> removes the body and stops at the check of the
  \<open>enabled\<close> field: the counter is still 5.
\<close>

theorem rebuild_keeps_syncCounter_when_disabled:
  "syncCounter sphereDisabled = 5
   \<and> syncCounter (fst (stateOf (createPhysics sphereDisabled (snd sphereBuilt)))) = 5
   \<and> body (fst (stateOf (createPhysics sphereDisabled (snd sphereBuilt)))) = None"
  using sphereBuilt_eval
  by (simp add: sphereDisabled_def sphereUsed_def createPhysics_def removePhysics_def editorSettings_def
      Let_def)

text \<open>
  C3, as the code has it: for an object that is enabled and not parented, whatever its
  sync counter before the call, \<^verbatim>\<open>createPhysics\<close> sets the counter to 0 (before the
  build suspends, when it does; the part that runs after the suspension leaves the counter as
  it finds it). For an object that is disabled or parented, the call only tears the physics
  down and the counter keeps its value. In both classes.
\<close>

theorem rebuild_resets_syncCounter_when_enabled:
  "(get_enabled (settings c) \<and> \<not> str_truthy (f_parent (objFields c))
      \<longrightarrow> syncCounter (fst (stateOf (createPhysics c e))) = 0)
   \<and> (\<not> get_enabled (settings c) \<or> str_truthy (f_parent (objFields c))
      \<longrightarrow> syncCounter (fst (stateOf (createPhysics c e))) = syncCounter c)
   \<and> syncCounter (fst (createPhysics_resume k b ms c e)) = syncCounter c
   \<and> (get_enabled (settings cs) \<and> \<not> str_truthy (f_parent (objFields cs))
      \<longrightarrow> syncCounter (fst (createPhysics_single cs e)) = 0)
   \<and> (\<not> get_enabled (settings cs) \<or> str_truthy (f_parent (objFields cs))
      \<longrightarrow> syncCounter (fst (createPhysics_single cs e)) = syncCounter cs)"
  by (auto simp: createPhysics_syncCounter createPhysics_single_syncCounter createPhysics_resume_syncCounter)

text \<open>
  C3, witness: the sphere with counter 5 is rebuilt to counter 0 in both classes, and keeps
  5 when disabled.
\<close>

theorem rebuild_resets_syncCounter_when_enabled_witness:
  "syncCounter sphereUsed = 5 \<and> get_enabled (settings sphereUsed)
   \<and> \<not> str_truthy (f_parent (objFields sphereUsed))
   \<and> syncCounter (fst (stateOf (createPhysics sphereUsed (snd sphereBuilt)))) = 0
   \<and> \<not> get_enabled (settings sphereDisabled)
   \<and> syncCounter (fst (stateOf (createPhysics sphereDisabled (snd sphereBuilt)))) = syncCounter sphereDisabled
   \<and> syncCounter sphereUsed_single = 5
   \<and> syncCounter (fst (createPhysics_single sphereUsed_single (snd sphereBuilt_single))) = 0"
  using rebuild_resets_syncCounter_when_enabled[where c = sphereUsed and e = "snd sphereBuilt"
      and cs = sphereUsed_single, THEN conjunct1]
    rebuild_resets_syncCounter_when_enabled[where c = sphereDisabled and e = "snd sphereBuilt",
      THEN conjunct2, THEN conjunct1]
    rebuild_resets_syncCounter_when_enabled[where cs = sphereUsed_single and e = "snd sphereBuilt_single",
      THEN conjunct2, THEN conjunct2, THEN conjunct2, THEN conjunct1]
    sphereUsed_facts
  by (simp add: sphereDisabled_def editorSettings_def)

subsection \<open>Sending an update\<close>

lemma broadcastState_cases:
  "broadcastState now b c e =
     (if \<not> synchronized c \<or> mode c \<noteq> ''Dynamic'' \<or> sendingTooQuickly now (lastUpdateSent c)
      then Returned (c, e)
      else case bodies (world e) b of
             None \<Rightarrow> Threw RuntimeError
               (c\<lparr>lastUpdateSent := Some now, sendUpdateNextFrame := False, syncCounter := syncCounter c + 1\<rparr>, e)
           | Some rb \<Rightarrow> Returned
               (c\<lparr>lastUpdateSent := Some now, sendUpdateNextFrame := False, syncCounter := syncCounter c + 1\<rparr>,
                e\<lparr>sent := sent e @ [updateMessage (instanceID e) (objectID c) (syncCounter c + 1) rb],
                  numMessagesOut := numMessagesOut e + 1\<rparr>))"
  by (simp add: broadcastState_def Let_def split: option.splits)

lemma broadcastState_sent:
  "sent (snd (resultState (broadcastState now b c e))) \<noteq> sent e \<Longrightarrow>
     synchronized c \<and> mode c = ''Dynamic'' \<and> \<not> sendingTooQuickly now (lastUpdateSent c)
     \<and> (\<exists>rb. bodies (world e) b = Some rb)"
  by (auto simp: broadcastState_cases split: if_splits option.splits)

lemma sphereSent_eval:
  "sendUpdate 1000 (fst sphereBuilt) (snd sphereBuilt) = Returned sphereSent
   \<and> fst sphereSent = (fst sphereBuilt)\<lparr>lastUpdateSent := Some 1000, sendUpdateNextFrame := False, syncCounter := 1\<rparr>
   \<and> sent (snd sphereSent) =
       [\<lparr>action = ''update'', inst = ''A'', obj = ''o1'', counter = 1,
         pos = Some [Some 0, Some 10, Some 0], quat = Some [Some 0, Some 0, Some 0, Some 1],
         angvel = Some [Some 0, Some 0, Some 0], linvel = Some [Some 0, Some 0, Some 0]\<rparr>]
   \<and> world (snd sphereSent) = world (snd sphereBuilt)"
  using sphereBuilt_eval
  by (simp add: sphereSent_def sendUpdate_def broadcastState_cases sendingTooQuickly_def
      updateMessage_def body_desc_def)

lemma sphereTouched_eval:
  "sphereTouched = (fst sphereBuilt)\<lparr>lastUpdateSent := Some 1000, sendUpdateNextFrame := True, syncCounter := 1\<rparr>"
  using sphereSent_eval by (simp add: sphereTouched_def didCollideWithUser_def)

lemma sphereTouched_facts:
  "lastUpdateSent sphereTouched = Some 1000" "sendUpdateNextFrame sphereTouched"
  "body sphereTouched = Some 1" "synchronized sphereTouched" "mode sphereTouched = ''Dynamic''"
  "syncCounter sphereTouched = 1" "objectID sphereTouched = ''o1''"
  using sphereBuilt_eval by (simp_all add: sphereTouched_eval)

lemma sphereSent_body:
  "bodies (world (snd sphereSent)) 1 =
     Some ((body_desc DynamicBody)\<lparr>rb_additional_mass := 2, rb_translation := (Some 0, Some 10, Some 0)\<rparr>)"
  using sphereSent_eval sphereBuilt_eval by simp

lemma updateMessage_explicit:
  "updateMessage i oid n rb =
     \<lparr>action = ''update'', inst = i, obj = oid, counter = n,
      pos = Some [fst (rb_translation rb), fst (snd (rb_translation rb)),
                  snd (snd (rb_translation rb))],
      quat = Some [fst (rb_rotation rb), fst (snd (rb_rotation rb)),
                   fst (snd (snd (rb_rotation rb))), snd (snd (snd (rb_rotation rb)))],
      angvel = Some [fst (rb_angvel rb), fst (snd (rb_angvel rb)), snd (snd (rb_angvel rb))],
      linvel = Some [fst (rb_linvel rb), fst (snd (rb_linvel rb)), snd (snd (rb_linvel rb))]\<rparr>"
  by (simp add: updateMessage_def split: prod.splits)

lemma broadcastState_sends:
  assumes "bodies (world e) b = Some rb" "synchronized c" "mode c = ''Dynamic''"
    "\<forall>t. lastUpdateSent c = Some t \<longrightarrow> t = 0 \<or> 100 \<le> now - t"
  shows "broadcastState now b c e = Returned
     (c\<lparr>lastUpdateSent := Some now, sendUpdateNextFrame := False, syncCounter := syncCounter c + 1\<rparr>,
      e\<lparr>sent := sent e @ [updateMessage (instanceID e) (objectID c) (syncCounter c + 1) rb],
        numMessagesOut := numMessagesOut e + 1\<rparr>)"
proof -
  have "\<not> sendingTooQuickly now (lastUpdateSent c)"
    using assms(4) by (cases "lastUpdateSent c") (auto simp: sendingTooQuickly_def)
  then show ?thesis using assms(1-3) by (simp add: broadcastState_cases)
qed

text \<open>
  C5, in both classes. A call of \<^verbatim>\<open>sendUpdate\<close> that adds to the messages sent was made
  on a synchronized, dynamic object with a body (and, in the class with one collider, with
  its collider). A call that returns having sent has raised the sync counter by 1, cleared
  \<^verbatim>\<open>sendUpdateNextFrame\<close>, and appended exactly one message: action \<open>update\<close>, the
  instance ID of this plugin, the object ID, the new counter, and the three coordinates of
  the translation, the four of the rotation, the three of the angular and the three of the
  linear velocity of the body, each in its place. When the object is not synchronized, not
  dynamic or has no body, the call returns the state it was given: nothing is sent and the
  counter is unchanged. And the call does send: on an object whose body is in the world,
  that is synchronized and dynamic, and whose last send is unset or at least 100 ms ago,
  it returns exactly that state, with the time recorded, the message appended and the count
  of outbound messages raised by 1.
\<close>

theorem sendUpdate_contract:
  "(sent (snd (resultState (sendUpdate now c e))) \<noteq> sent e
      \<longrightarrow> synchronized c \<and> mode c = ''Dynamic'' \<and> body c \<noteq> None)
   \<and> (sendUpdate now c e = Returned (c', e') \<and> sent e' \<noteq> sent e
      \<longrightarrow> syncCounter c' = syncCounter c + 1 \<and> \<not> sendUpdateNextFrame c'
        \<and> (\<exists>b rb. body c = Some b \<and> bodies (world e) b = Some rb
              \<and> sent e' = sent e @
                 [\<lparr>action = ''update'', inst = instanceID e, obj = objectID c,
                   counter = syncCounter c + 1,
                   pos = Some [fst (rb_translation rb), fst (snd (rb_translation rb)),
                               snd (snd (rb_translation rb))],
                   quat = Some [fst (rb_rotation rb), fst (snd (rb_rotation rb)),
                                fst (snd (snd (rb_rotation rb))), snd (snd (snd (rb_rotation rb)))],
                   angvel = Some [fst (rb_angvel rb), fst (snd (rb_angvel rb)),
                                  snd (snd (rb_angvel rb))],
                   linvel = Some [fst (rb_linvel rb), fst (snd (rb_linvel rb)),
                                  snd (snd (rb_linvel rb))]\<rparr>]))
   \<and> (\<not> synchronized c \<or> mode c \<noteq> ''Dynamic'' \<or> body c = None
      \<longrightarrow> sendUpdate now c e = Returned (c, e))
   \<and> (body c = Some b \<and> bodies (world e) b = Some rb \<and> synchronized c \<and> mode c = ''Dynamic''
        \<and> (\<forall>t. lastUpdateSent c = Some t \<longrightarrow> t = 0 \<or> 100 \<le> now - t)
      \<longrightarrow> sendUpdate now c e = Returned
            (c\<lparr>lastUpdateSent := Some now, sendUpdateNextFrame := False,
                syncCounter := syncCounter c + 1\<rparr>,
             e\<lparr>sent := sent e @
                 [\<lparr>action = ''update'', inst = instanceID e, obj = objectID c,
                   counter = syncCounter c + 1,
                   pos = Some [fst (rb_translation rb), fst (snd (rb_translation rb)),
                               snd (snd (rb_translation rb))],
                   quat = Some [fst (rb_rotation rb), fst (snd (rb_rotation rb)),
                                fst (snd (snd (rb_rotation rb))), snd (snd (snd (rb_rotation rb)))],
                   angvel = Some [fst (rb_angvel rb), fst (snd (rb_angvel rb)),
                                  snd (snd (rb_angvel rb))],
                   linvel = Some [fst (rb_linvel rb), fst (snd (rb_linvel rb)),
                                  snd (snd (rb_linvel rb))]\<rparr>],
               numMessagesOut := numMessagesOut e + 1\<rparr>))
   \<and> (sent (snd (resultState (sendUpdate_single now cs e))) \<noteq> sent e
      \<longrightarrow> synchronized cs \<and> mode cs = ''Dynamic'' \<and> body cs \<noteq> None \<and> collider cs \<noteq> None)
   \<and> (sendUpdate_single now cs e = Returned (cs', e') \<and> sent e' \<noteq> sent e
      \<longrightarrow> syncCounter cs' = syncCounter cs + 1 \<and> \<not> sendUpdateNextFrame cs'
        \<and> (\<exists>b rb. body cs = Some b \<and> bodies (world e) b = Some rb
              \<and> sent e' = sent e @
                 [\<lparr>action = ''update'', inst = instanceID e, obj = objectID cs,
                   counter = syncCounter cs + 1,
                   pos = Some [fst (rb_translation rb), fst (snd (rb_translation rb)),
                               snd (snd (rb_translation rb))],
                   quat = Some [fst (rb_rotation rb), fst (snd (rb_rotation rb)),
                                fst (snd (snd (rb_rotation rb))), snd (snd (snd (rb_rotation rb)))],
                   angvel = Some [fst (rb_angvel rb), fst (snd (rb_angvel rb)),
                                  snd (snd (rb_angvel rb))],
                   linvel = Some [fst (rb_linvel rb), fst (snd (rb_linvel rb)),
                                  snd (snd (rb_linvel rb))]\<rparr>]))
   \<and> (\<not> synchronized cs \<or> mode cs \<noteq> ''Dynamic'' \<or> body cs = None
      \<longrightarrow> sendUpdate_single now cs e = Returned (cs, e))
   \<and> (body cs = Some b \<and> collider cs \<noteq> None \<and> bodies (world e) b = Some rb \<and> synchronized cs \<and> mode cs = ''Dynamic''
        \<and> (\<forall>t. lastUpdateSent cs = Some t \<longrightarrow> t = 0 \<or> 100 \<le> now - t)
      \<longrightarrow> sendUpdate_single now cs e = Returned
            (cs\<lparr>lastUpdateSent := Some now, sendUpdateNextFrame := False,
                syncCounter := syncCounter cs + 1\<rparr>,
             e\<lparr>sent := sent e @
                 [\<lparr>action = ''update'', inst = instanceID e, obj = objectID cs,
                   counter = syncCounter cs + 1,
                   pos = Some [fst (rb_translation rb), fst (snd (rb_translation rb)),
                               snd (snd (rb_translation rb))],
                   quat = Some [fst (rb_rotation rb), fst (snd (rb_rotation rb)),
                                fst (snd (snd (rb_rotation rb))), snd (snd (snd (rb_rotation rb)))],
                   angvel = Some [fst (rb_angvel rb), fst (snd (rb_angvel rb)),
                                  snd (snd (rb_angvel rb))],
                   linvel = Some [fst (rb_linvel rb), fst (snd (rb_linvel rb)),
                                  snd (snd (rb_linvel rb))]\<rparr>],
               numMessagesOut := numMessagesOut e + 1\<rparr>))"
proof -
  have a: "sent (snd (resultState (sendUpdate now c e))) \<noteq> sent e
      \<longrightarrow> synchronized c \<and> mode c = ''Dynamic'' \<and> body c \<noteq> None"
    by (cases "body c") (auto simp: sendUpdate_def dest: broadcastState_sent)
  have b: "sendUpdate now c e = Returned (c', e') \<and> sent e' \<noteq> sent e
      \<longrightarrow> syncCounter c' = syncCounter c + 1 \<and> \<not> sendUpdateNextFrame c'
        \<and> (\<exists>b rb. body c = Some b \<and> bodies (world e) b = Some rb
              \<and> sent e' = sent e @ [updateMessage (instanceID e) (objectID c) (syncCounter c + 1) rb])"
    by (cases "body c") (auto simp: sendUpdate_def broadcastState_cases split: if_splits option.splits)
  have c: "\<not> synchronized c \<or> mode c \<noteq> ''Dynamic'' \<or> body c = None
      \<longrightarrow> sendUpdate now c e = Returned (c, e)"
    by (cases "body c") (auto simp: sendUpdate_def broadcastState_cases)
  have g: "body c = Some b \<and> bodies (world e) b = Some rb \<and> synchronized c \<and> mode c = ''Dynamic''
        \<and> (\<forall>t. lastUpdateSent c = Some t \<longrightarrow> t = 0 \<or> 100 \<le> now - t)
      \<longrightarrow> sendUpdate now c e = Returned
            (c\<lparr>lastUpdateSent := Some now, sendUpdateNextFrame := False,
                syncCounter := syncCounter c + 1\<rparr>,
             e\<lparr>sent := sent e @ [updateMessage (instanceID e) (objectID c) (syncCounter c + 1) rb],
               numMessagesOut := numMessagesOut e + 1\<rparr>)"
    by (simp add: sendUpdate_def broadcastState_sends)
  have d: "sent (snd (resultState (sendUpdate_single now cs e))) \<noteq> sent e
      \<longrightarrow> synchronized cs \<and> mode cs = ''Dynamic'' \<and> body cs \<noteq> None \<and> collider cs \<noteq> None"
    by (cases "body cs") (auto simp: sendUpdate_single_def dest: broadcastState_sent split: if_splits)
  have e: "sendUpdate_single now cs e = Returned (cs', e') \<and> sent e' \<noteq> sent e
      \<longrightarrow> syncCounter cs' = syncCounter cs + 1 \<and> \<not> sendUpdateNextFrame cs'
        \<and> (\<exists>b rb. body cs = Some b \<and> bodies (world e) b = Some rb
              \<and> sent e' = sent e @ [updateMessage (instanceID e) (objectID cs) (syncCounter cs + 1) rb])"
    by (cases "body cs") (auto simp: sendUpdate_single_def broadcastState_cases split: if_splits option.splits)
  have f: "\<not> synchronized cs \<or> mode cs \<noteq> ''Dynamic'' \<or> body cs = None
      \<longrightarrow> sendUpdate_single now cs e = Returned (cs, e)"
    by (cases "body cs") (auto simp: sendUpdate_single_def broadcastState_cases)
  have h: "body cs = Some b \<and> collider cs \<noteq> None \<and> bodies (world e) b = Some rb
        \<and> synchronized cs \<and> mode cs = ''Dynamic''
        \<and> (\<forall>t. lastUpdateSent cs = Some t \<longrightarrow> t = 0 \<or> 100 \<le> now - t)
      \<longrightarrow> sendUpdate_single now cs e = Returned
            (cs\<lparr>lastUpdateSent := Some now, sendUpdateNextFrame := False,
                syncCounter := syncCounter cs + 1\<rparr>,
             e\<lparr>sent := sent e @ [updateMessage (instanceID e) (objectID cs) (syncCounter cs + 1) rb],
               numMessagesOut := numMessagesOut e + 1\<rparr>)"
    by (auto simp: sendUpdate_single_def broadcastState_sends)
  from a b c g d e f h show ?thesis unfolding updateMessage_explicit by blast
qed

lemma sphereBuilt_counts:
  "numMessagesOut (snd sphereBuilt) = 0" "numMessagesOut (snd sphereBuilt_single) = 0"
  by (simp_all add: sphereBuilt_def sphereBuilt_single_def example_defs)

lemma movingUpdate_fields:
  "counter movingUpdate = 4" "pos movingUpdate = Some [Some 1, Some 2, Some 3]"
  "quat movingUpdate = Some [Some (2 / 9), Some (4 / 9), Some (5 / 9), Some (2 / 3)]"
  "angvel movingUpdate = Some [Some 7, Some 8, Some 9]"
  "linvel movingUpdate = Some [Some 10, Some 11, Some 12]"
  by (simp_all add: movingUpdate_def)

lemma sphereMoved_eval:
  "sphereMoved = ((fst sphereBuilt)\<lparr>syncCounter := 4\<rparr>,
      (snd sphereBuilt)\<lparr>world := (world (snd sphereBuilt))\<lparr>bodies :=
          (bodies (world (snd sphereBuilt)))(1 \<mapsto> movedBody)\<rparr>\<rparr>)"
proof -
  have live: "bodies (world (snd sphereBuilt)) 1 =
       Some ((body_desc DynamicBody)\<lparr>rb_additional_mass := 2,
               rb_translation := (Some 0, Some 10, Some 0)\<rparr>)"
    using sphereBuilt_eval by simp
  note applied = applyRemoteState_live[OF live movingUpdate_fields(2-5), of "fst sphereBuilt"]
  have "applyRemoteState 1 movingUpdate (fst sphereBuilt) (snd sphereBuilt) =
      Returned ((fst sphereBuilt)\<lparr>syncCounter := 4\<rparr>,
        (snd sphereBuilt)\<lparr>world := (world (snd sphereBuilt))\<lparr>bodies :=
          (bodies (world (snd sphereBuilt)))(1 \<mapsto> movedBody)\<rparr>\<rparr>)"
    unfolding applied
    by (simp add: movingUpdate_fields(1) js_index_def movedBody_def body_desc_def)
  then show ?thesis
    using sphereBuilt_eval
    by (simp add: sphereMoved_def onRemoteUpdateReceived_def movingUpdate_fields(1))
qed

lemma sphereMoved_single_eval:
  "sphereMoved_single = ((fst sphereBuilt_single)\<lparr>syncCounter := 4\<rparr>,
      (snd sphereBuilt_single)\<lparr>world := (world (snd sphereBuilt_single))\<lparr>bodies :=
          (bodies (world (snd sphereBuilt_single)))(1 \<mapsto> movedBody)\<rparr>\<rparr>)"
proof -
  have live: "bodies (world (snd sphereBuilt_single)) 1 =
       Some ((body_desc DynamicBody)\<lparr>rb_additional_mass := 2,
               rb_translation := (Some 0, Some 10, Some 0)\<rparr>)"
    using sphereBuilt_single_eval by simp
  note applied = applyRemoteState_live[OF live movingUpdate_fields(2-5), of "fst sphereBuilt_single"]
  have "applyRemoteState 1 movingUpdate (fst sphereBuilt_single) (snd sphereBuilt_single) =
      Returned ((fst sphereBuilt_single)\<lparr>syncCounter := 4\<rparr>,
        (snd sphereBuilt_single)\<lparr>world := (world (snd sphereBuilt_single))\<lparr>bodies :=
          (bodies (world (snd sphereBuilt_single)))(1 \<mapsto> movedBody)\<rparr>\<rparr>)"
    unfolding applied
    by (simp add: movingUpdate_fields(1) js_index_def movedBody_def body_desc_def)
  then show ?thesis
    using sphereBuilt_single_eval
    by (simp add: sphereMoved_single_def onRemoteUpdateReceived_single_def movingUpdate_fields(1))
qed

lemma sphereMovedTouched_facts:
  "body sphereMovedTouched = Some 1" "synchronized sphereMovedTouched"
  "mode sphereMovedTouched = ''Dynamic''" "syncCounter sphereMovedTouched = 4"
  "lastUpdateSent sphereMovedTouched = None" "objectID sphereMovedTouched = ''o1''"
  "sendUpdateNextFrame sphereMovedTouched"
  "bodies (world (snd sphereMoved)) 1 = Some movedBody"
  "sent (snd sphereMoved) = []" "instanceID (snd sphereMoved) = ''A''"
  "numMessagesOut (snd sphereMoved) = 0"
  using sphereBuilt_eval sphereBuilt_counts
  by (simp_all add: sphereMovedTouched_def didCollideWithUser_def sphereMoved_eval)

lemma sphereMovedTouched_single_facts:
  "body sphereMovedTouched_single = Some 1" "collider sphereMovedTouched_single = Some 2"
  "synchronized sphereMovedTouched_single"
  "mode sphereMovedTouched_single = ''Dynamic''" "syncCounter sphereMovedTouched_single = 4"
  "lastUpdateSent sphereMovedTouched_single = None" "objectID sphereMovedTouched_single = ''o1''"
  "sendUpdateNextFrame sphereMovedTouched_single"
  "bodies (world (snd sphereMoved_single)) 1 = Some movedBody"
  "sent (snd sphereMoved_single) = []" "instanceID (snd sphereMoved_single) = ''A''"
  "numMessagesOut (snd sphereMoved_single) = 0"
  using sphereBuilt_single_eval sphereBuilt_counts
  by (simp_all add: sphereMovedTouched_single_def didCollideWithUser_def sphereMoved_single_eval)

text \<open>
  C5, witness. The sphere that has merged the moving update and was touched by the user
  sends at time 1000, in both classes: the call returns, the time is recorded, the flag is
  cleared, the counter goes from 4 to 5, the count of outbound messages is 1, and the one
  message sent carries the instance ID \<open>A\<close>, the object ID, the counter 5, and the
  translation, rotation, angular and linear velocity of the body, number by number. The
  freshly built sphere sends at time 1000 too; the static sphere sends nothing, and neither
  does an object of the class with one collider that has no body yet.
\<close>

theorem sendUpdate_contract_witness:
  "sendUpdateNextFrame sphereMovedTouched
   \<and> sendUpdate 1000 sphereMovedTouched (snd sphereMoved) = Returned
       (sphereMovedTouched\<lparr>lastUpdateSent := Some 1000, sendUpdateNextFrame := False,
           syncCounter := 5\<rparr>,
        (snd sphereMoved)\<lparr>sent :=
           [\<lparr>action = ''update'', inst = ''A'', obj = ''o1'', counter = 5,
             pos = Some [Some 1, Some 2, Some 3],
             quat = Some [Some (2 / 9), Some (4 / 9), Some (5 / 9), Some (2 / 3)],
             angvel = Some [Some 7, Some 8, Some 9],
             linvel = Some [Some 10, Some 11, Some 12]\<rparr>],
           numMessagesOut := 1\<rparr>)
   \<and> sendUpdateNextFrame sphereMovedTouched_single
   \<and> collider sphereMovedTouched_single \<noteq> None
   \<and> sendUpdate_single 1000 sphereMovedTouched_single (snd sphereMoved_single) = Returned
       (sphereMovedTouched_single\<lparr>lastUpdateSent := Some 1000, sendUpdateNextFrame := False,
           syncCounter := 5\<rparr>,
        (snd sphereMoved_single)\<lparr>sent :=
           [\<lparr>action = ''update'', inst = ''A'', obj = ''o1'', counter = 5,
             pos = Some [Some 1, Some 2, Some 3],
             quat = Some [Some (2 / 9), Some (4 / 9), Some (5 / 9), Some (2 / 3)],
             angvel = Some [Some 7, Some 8, Some 9],
             linvel = Some [Some 10, Some 11, Some 12]\<rparr>],
           numMessagesOut := 1\<rparr>)
   \<and> sendUpdate 1000 (fst sphereBuilt) (snd sphereBuilt) = Returned sphereSent
   \<and> sent (snd sphereSent) \<noteq> sent (snd sphereBuilt)
   \<and> synchronized (fst sphereBuilt) \<and> mode (fst sphereBuilt) = ''Dynamic''
   \<and> body (fst sphereBuilt) \<noteq> None
   \<and> syncCounter (fst sphereSent) = syncCounter (fst sphereBuilt) + 1
   \<and> \<not> sendUpdateNextFrame (fst sphereSent)
   \<and> mode (fst staticBuilt) \<noteq> ''Dynamic''
   \<and> sendUpdate 1000 (fst staticBuilt) (snd staticBuilt) = Returned (fst staticBuilt, snd staticBuilt)
   \<and> body (modeObject_single ''Dynamic'') = None
   \<and> sendUpdate_single 1000 (modeObject_single ''Dynamic'') loadedEnv
       = Returned (modeObject_single ''Dynamic'', loadedEnv)"
proof -
  have mv: "sendUpdate 1000 sphereMovedTouched (snd sphereMoved) = Returned
       (sphereMovedTouched\<lparr>lastUpdateSent := Some 1000, sendUpdateNextFrame := False,
           syncCounter := 5\<rparr>,
        (snd sphereMoved)\<lparr>sent :=
           [\<lparr>action = ''update'', inst = ''A'', obj = ''o1'', counter = 5,
             pos = Some [Some 1, Some 2, Some 3],
             quat = Some [Some (2 / 9), Some (4 / 9), Some (5 / 9), Some (2 / 3)],
             angvel = Some [Some 7, Some 8, Some 9],
             linvel = Some [Some 10, Some 11, Some 12]\<rparr>],
           numMessagesOut := 1\<rparr>)"
    using sendUpdate_contract[where now = 1000 and c = sphereMovedTouched and e = "snd sphereMoved"
        and b = 1 and rb = movedBody,
        THEN conjunct2, THEN conjunct2, THEN conjunct2, THEN conjunct1]
      sphereMovedTouched_facts
    by (simp add: movedBody_def)
  have mvs: "sendUpdate_single 1000 sphereMovedTouched_single (snd sphereMoved_single) = Returned
       (sphereMovedTouched_single\<lparr>lastUpdateSent := Some 1000, sendUpdateNextFrame := False,
           syncCounter := 5\<rparr>,
        (snd sphereMoved_single)\<lparr>sent :=
           [\<lparr>action = ''update'', inst = ''A'', obj = ''o1'', counter = 5,
             pos = Some [Some 1, Some 2, Some 3],
             quat = Some [Some (2 / 9), Some (4 / 9), Some (5 / 9), Some (2 / 3)],
             angvel = Some [Some 7, Some 8, Some 9],
             linvel = Some [Some 10, Some 11, Some 12]\<rparr>],
           numMessagesOut := 1\<rparr>)"
    using sendUpdate_contract[where now = 1000 and cs = sphereMovedTouched_single
        and e = "snd sphereMoved_single" and b = 1 and rb = movedBody,
        THEN conjunct2, THEN conjunct2, THEN conjunct2, THEN conjunct2, THEN conjunct2,
        THEN conjunct2, THEN conjunct2]
      sphereMovedTouched_single_facts
    by (simp add: movedBody_def)
  have fl: "sendUpdateNextFrame sphereMovedTouched" "sendUpdateNextFrame sphereMovedTouched_single"
    "collider sphereMovedTouched_single \<noteq> None"
    by (simp_all add: sphereMovedTouched_facts sphereMovedTouched_single_facts)
  have nb: "body (modeObject_single ''Dynamic'') = None"
    by (simp add: modeObject_single_def newComponent_single_def)
  have sg: "sendUpdate_single 1000 (modeObject_single ''Dynamic'') loadedEnv
       = Returned (modeObject_single ''Dynamic'', loadedEnv)"
    using sendUpdate_contract[where now = 1000 and cs = "modeObject_single ''Dynamic''" and e = loadedEnv,
        THEN conjunct2, THEN conjunct2, THEN conjunct2, THEN conjunct2, THEN conjunct2,
        THEN conjunct2, THEN conjunct1] nb
    by blast
  have ret: "sendUpdate 1000 (fst sphereBuilt) (snd sphereBuilt) = Returned sphereSent"
    using sphereSent_eval by blast
  then have first: "sendUpdate 1000 (fst sphereBuilt) (snd sphereBuilt) = Returned (fst sphereSent, snd sphereSent)"
    by (simp only: prod.collapse)
  have one: "sent (snd sphereSent) \<noteq> sent (snd sphereBuilt)"
    using sphereSent_eval sphereBuilt_eval by auto
  have st: "mode (fst staticBuilt) \<noteq> ''Dynamic''"
    using staticBuilt_eval by simp
  have sb: "synchronized (fst sphereBuilt) \<and> mode (fst sphereBuilt) = ''Dynamic''
      \<and> body (fst sphereBuilt) \<noteq> None"
    using sendUpdate_contract[where now = 1000 and c = "fst sphereBuilt" and e = "snd sphereBuilt",
        THEN conjunct1] ret one
    by simp
  have inc: "syncCounter (fst sphereSent) = syncCounter (fst sphereBuilt) + 1
      \<and> \<not> sendUpdateNextFrame (fst sphereSent)"
    using sendUpdate_contract[where now = 1000 and c = "fst sphereBuilt" and e = "snd sphereBuilt"
        and c' = "fst sphereSent" and e' = "snd sphereSent", THEN conjunct2, THEN conjunct1]
      first one
    by blast
  have no: "sendUpdate 1000 (fst staticBuilt) (snd staticBuilt) = Returned (fst staticBuilt, snd staticBuilt)"
    using sendUpdate_contract[where now = 1000 and c = "fst staticBuilt" and e = "snd staticBuilt",
        THEN conjunct2, THEN conjunct2, THEN conjunct1] st
    by blast
  from mv mvs fl ret one sb inc st no nb sg show ?thesis by blast
qed

subsection \<open>The limit of one update in 100 ms\<close>

lemma sendUpdate_throttled:
  "lastUpdateSent c = Some t1 \<Longrightarrow> t1 \<noteq> 0 \<Longrightarrow> t2 - t1 < 100 \<Longrightarrow> sendUpdate t2 c e = Returned (c, e)"
  by (simp add: sendUpdate_def broadcastState_cases sendingTooQuickly_def split: option.splits)

lemma sendUpdate_after_window:
  "lastUpdateSent c = Some t1 \<Longrightarrow> 100 \<le> t3 - t1 \<Longrightarrow> body c = Some b \<Longrightarrow> bodies (world e) b = Some rb
    \<Longrightarrow> synchronized c \<Longrightarrow> mode c = ''Dynamic'' \<Longrightarrow>
   sendUpdate t3 c e = Returned
     (c\<lparr>lastUpdateSent := Some t3, sendUpdateNextFrame := False, syncCounter := syncCounter c + 1\<rparr>,
      e\<lparr>sent := sent e @ [updateMessage (instanceID e) (objectID c) (syncCounter c + 1) rb],
        numMessagesOut := numMessagesOut e + 1\<rparr>)"
  by (simp add: sendUpdate_def broadcastState_cases sendingTooQuickly_def)

lemma loop_throttled:
  assumes "lastUpdateSent c = Some t1" "t1 \<noteq> 0" "t2 - t1 < 100"
  shows "sent (snd (stateOf (resultState (loop t2 c e)))) = sent e
     \<and> sendUpdateNextFrame (fst (stateOf (resultState (loop t2 c e)))) = sendUpdateNextFrame c"
  using assms createPhysics_keeps_flag
  by (simp add: loop_def Let_def sendUpdate_throttled split: option.splits)

lemma loop_after_window:
  assumes "lastUpdateSent c = Some t1" "100 \<le> t3 - t1" "body c = Some b" "bodies (world e) b = Some rb"
    "synchronized c" "mode c = ''Dynamic''" "\<not> rb_sleeping rb" "\<not> fellOut (fst (snd (rb_translation rb)))"
    "sendUpdateNextFrame c"
  shows "loop t3 c e = Returned (Finished
     (c\<lparr>lastUpdateSent := Some t3, sendUpdateNextFrame := False, syncCounter := syncCounter c + 1\<rparr>,
      e\<lparr>objectUpdates := objectUpdates e @ [transformUpdate (objectID c) rb],
        sent := sent e @ [updateMessage (instanceID e) (objectID c) (syncCounter c + 1) rb],
        numMessagesOut := numMessagesOut e + 1\<rparr>))"
  using assms
  by (simp add: loop_def Let_def sendUpdate_after_window[where ?t1.0=t1 and b=b and rb=rb])

lemma sendUpdate_first:
  "sendUpdate t1 c e = Returned (c1, e1) \<Longrightarrow> sent e1 \<noteq> sent e \<Longrightarrow>
     lastUpdateSent c1 = Some t1 \<and> length (sent e1) = Suc (length (sent e))"
  by (cases "body c") (auto simp: sendUpdate_def broadcastState_cases split: if_splits option.splits)

text \<open>
  C4. Time is the value of \<^verbatim>\<open>Date.now()\<close>, in milliseconds since 1970, so it is not 0.
  A call of \<^verbatim>\<open>sendUpdate\<close> at time \<open>t1\<close> that sends appends one message and records
  \<open>t1\<close>. While less than 100 ms have passed since \<open>t1\<close>, a second call returns the state it
  was given (nothing is sent, and \<^verbatim>\<open>sendUpdateNextFrame\<close> stays as it is), and a frame of
  \<^verbatim>\<open>loop\<close> sends nothing and leaves the flag as it is, so the request is kept. Once 100 ms
  have passed, a call on the object (synchronized, dynamic, its body in the world) sends
  one message and clears the flag, and so does the frame of \<^verbatim>\<open>loop\<close> when the flag is set
  and the body is awake and has not fallen out of the world.
\<close>

theorem broadcast_rate_limit:
  "(sendUpdate t1 c e = Returned (c1, e1) \<and> sent e1 \<noteq> sent e
      \<longrightarrow> lastUpdateSent c1 = Some t1 \<and> length (sent e1) = Suc (length (sent e)))
   \<and> (lastUpdateSent c2 = Some t1 \<and> t1 \<noteq> 0 \<and> t2 - t1 < 100
      \<longrightarrow> sendUpdate t2 c2 e2 = Returned (c2, e2)
        \<and> sent (snd (stateOf (resultState (loop t2 c2 e2)))) = sent e2
        \<and> sendUpdateNextFrame (fst (stateOf (resultState (loop t2 c2 e2)))) = sendUpdateNextFrame c2)
   \<and> (lastUpdateSent c3 = Some t1 \<and> 100 \<le> t3 - t1 \<and> body c3 = Some b
        \<and> bodies (world e3) b = Some rb \<and> synchronized c3 \<and> mode c3 = ''Dynamic''
      \<longrightarrow> sendUpdate t3 c3 e3 = Returned
            (c3\<lparr>lastUpdateSent := Some t3, sendUpdateNextFrame := False,
                syncCounter := syncCounter c3 + 1\<rparr>,
             e3\<lparr>sent := sent e3 @ [updateMessage (instanceID e3) (objectID c3) (syncCounter c3 + 1) rb],
                numMessagesOut := numMessagesOut e3 + 1\<rparr>)
        \<and> (sendUpdateNextFrame c3 \<and> \<not> rb_sleeping rb \<and> \<not> fellOut (fst (snd (rb_translation rb)))
            \<longrightarrow> loop t3 c3 e3 = Returned (Finished
                  (c3\<lparr>lastUpdateSent := Some t3, sendUpdateNextFrame := False,
                      syncCounter := syncCounter c3 + 1\<rparr>,
                   e3\<lparr>objectUpdates := objectUpdates e3 @ [transformUpdate (objectID c3) rb],
                      sent := sent e3 @ [updateMessage (instanceID e3) (objectID c3) (syncCounter c3 + 1) rb],
                      numMessagesOut := numMessagesOut e3 + 1\<rparr>))))"
  using sendUpdate_first[of t1 c e c1 e1] sendUpdate_throttled[of c2 t1 t2 e2]
    loop_throttled[of c2 t1 t2 e2] sendUpdate_after_window[of c3 t1 t3 b e3 rb]
    loop_after_window[of c3 t1 t3 b e3 rb]
  by blast

text \<open>
  C4, witness: the sphere sends at time 1000 and is then touched by the user. At 1050
  neither a call nor a frame sends, and the flag stays set; the frame at 1100 sends the
  second message and clears the flag.
\<close>

theorem broadcast_rate_limit_witness:
  "sendUpdate 1000 (fst sphereBuilt) (snd sphereBuilt) = Returned sphereSent
   \<and> length (sent (snd sphereSent)) = 1
   \<and> sendUpdateNextFrame sphereTouched
   \<and> sendUpdate 1050 sphereTouched (snd sphereSent) = Returned (sphereTouched, snd sphereSent)
   \<and> sent (snd (stateOf (resultState (loop 1050 sphereTouched (snd sphereSent))))) = sent (snd sphereSent)
   \<and> sendUpdateNextFrame (fst (stateOf (resultState (loop 1050 sphereTouched (snd sphereSent)))))
   \<and> length (sent (snd (stateOf (resultState (loop 1100 sphereTouched (snd sphereSent)))))) = 2
   \<and> \<not> sendUpdateNextFrame (fst (stateOf (resultState (loop 1100 sphereTouched (snd sphereSent)))))"
proof -
  have ret: "sendUpdate 1000 (fst sphereBuilt) (snd sphereBuilt) = Returned sphereSent"
    using sphereSent_eval by blast
  then have first: "sendUpdate 1000 (fst sphereBuilt) (snd sphereBuilt) = Returned (fst sphereSent, snd sphereSent)"
    by (simp only: prod.collapse)
  have one: "sent (snd sphereSent) \<noteq> sent (snd sphereBuilt)" "length (sent (snd sphereSent)) = 1"
    using sphereSent_eval sphereBuilt_eval by auto
  have awake: "\<not> rb_sleeping ((body_desc DynamicBody)\<lparr>rb_additional_mass := 2,
      rb_translation := (Some 0, Some 10, Some 0)\<rparr>)"
    "\<not> fellOut (fst (snd (rb_translation ((body_desc DynamicBody)\<lparr>rb_additional_mass := 2,
      rb_translation := (Some 0, Some 10, Some 0)\<rparr>))))"
    by (simp_all add: fellOut_def body_desc_def)
  from broadcast_rate_limit[where ?t1.0 = 1000 and c = "fst sphereBuilt" and e = "snd sphereBuilt"
      and ?c1.0 = "fst sphereSent" and ?e1.0 = "snd sphereSent"
      and ?c2.0 = sphereTouched and ?t2.0 = 1050 and ?e2.0 = "snd sphereSent"
      and ?c3.0 = sphereTouched and ?t3.0 = 1100 and ?e3.0 = "snd sphereSent" and b = 1
      and rb = "(body_desc DynamicBody)\<lparr>rb_additional_mass := 2, rb_translation := (Some 0, Some 10, Some 0)\<rparr>"]
    first one sphereTouched_facts sphereSent_body awake ret
  show ?thesis by simp
qed

subsection \<open>Inbound messages\<close>

lemma findIndex_None_iff: "findIndex P xs = None \<longleftrightarrow> (\<forall>x\<in>set xs. \<not> P x)"
  by (induction xs) auto

lemma onMessage_with_counts:
  "numMessagesIn (resultState (onMessage_with handler data p)) = numMessagesIn p + 1"
  by (simp add: onMessage_with_def Let_def split: option.splits outcome.splits prod.splits)

lemma onMessage_with_discards:
  "inst data = instanceID (penv p) \<or> action data \<noteq> ''update''
     \<or> (\<forall>ob\<in>set (physicsObjects p). objectID ob \<noteq> obj data)
   \<Longrightarrow> onMessage_with handler data p = Returned (p\<lparr>numMessagesIn := numMessagesIn p + 1\<rparr>)"
  using findIndex_None_iff[of "\<lambda>ob. objectID ob = obj data" "physicsObjects p"]
  by (auto simp: onMessage_with_def Let_def split: option.splits)

text \<open>
  C10, in both versions of the plugin. \<^verbatim>\<open>onMessage\<close> adds 1 to the count of inbound
  messages, whatever the message and also when the call of the component throws. When
  the message carries our own instance ID, or its action is not \<open>update\<close>, or no physics
  object has its object ID, the call returns and the count is the only change: no component,
  nothing of the world and nothing sent changes, and nothing is thrown.
\<close>

theorem onMessage_counts_and_discards:
  "numMessagesIn (resultState (onMessage data p)) = numMessagesIn p + 1
   \<and> (inst data = instanceID (penv p) \<or> action data \<noteq> ''update''
        \<or> (\<forall>ob\<in>set (physicsObjects p). objectID ob \<noteq> obj data)
      \<longrightarrow> onMessage data p = Returned (p\<lparr>numMessagesIn := numMessagesIn p + 1\<rparr>))
   \<and> numMessagesIn (resultState (onMessage_single data ps)) = numMessagesIn ps + 1
   \<and> (inst data = instanceID (penv ps) \<or> action data \<noteq> ''update''
        \<or> (\<forall>ob\<in>set (physicsObjects ps). objectID ob \<noteq> obj data)
      \<longrightarrow> onMessage_single data ps = Returned (ps\<lparr>numMessagesIn := numMessagesIn ps + 1\<rparr>))"
proof -
  have a: "numMessagesIn (resultState (onMessage data p)) = numMessagesIn p + 1"
    unfolding onMessage_def by (rule onMessage_with_counts)
  have b: "inst data = instanceID (penv p) \<or> action data \<noteq> ''update''
        \<or> (\<forall>ob\<in>set (physicsObjects p). objectID ob \<noteq> obj data)
      \<longrightarrow> onMessage data p = Returned (p\<lparr>numMessagesIn := numMessagesIn p + 1\<rparr>)"
    unfolding onMessage_def using onMessage_with_discards[of data p onRemoteUpdateReceived] by blast
  have c: "numMessagesIn (resultState (onMessage_single data ps)) = numMessagesIn ps + 1"
    unfolding onMessage_single_def by (rule onMessage_with_counts)
  have d: "inst data = instanceID (penv ps) \<or> action data \<noteq> ''update''
        \<or> (\<forall>ob\<in>set (physicsObjects ps). objectID ob \<noteq> obj data)
      \<longrightarrow> onMessage_single data ps = Returned (ps\<lparr>numMessagesIn := numMessagesIn ps + 1\<rparr>)"
    unfolding onMessage_single_def
    using onMessage_with_discards[of data ps onRemoteUpdateReceived_single] by blast
  from a b c d show ?thesis by blast
qed

lemma loadedPlugin_facts:
  "instanceID (penv loadedPlugin) = ''A''" "physicsObjects loadedPlugin = [fst sphereBuilt]"
  "instanceID (penv loadedPlugin_single) = ''A''"
  "physicsObjects loadedPlugin_single = [fst sphereBuilt_single]"
  using sphereBuilt_eval sphereBuilt_single_eval
  by (simp_all add: loadedPlugin_def loadedPlugin_single_def)

lemma dropped_message_facts:
  "inst echoMessage = ''A''" "action pingMessage = ''ping''" "obj strayMessage = ''o7''"
  "action echoMessage = ''update''" "obj echoMessage = ''o1''" "inst strayMessage = ''B''"
  "action strayMessage = ''update''" "inst pingMessage = ''B''" "obj pingMessage = ''o1''"
  by (simp_all add: echoMessage_def pingMessage_def strayMessage_def remoteUpdate_def)

text \<open>
  C10, witness: our own echo, a message with another action and no payload, and an update of
  an object that is not registered are dropped by the plugin that holds the sphere; an
  update of the sphere is counted.
\<close>

theorem onMessage_counts_and_discards_witness:
  "inst echoMessage = instanceID (penv loadedPlugin)
   \<and> onMessage echoMessage loadedPlugin = Returned (loadedPlugin\<lparr>numMessagesIn := 1\<rparr>)
   \<and> action pingMessage \<noteq> ''update''
   \<and> onMessage pingMessage loadedPlugin = Returned (loadedPlugin\<lparr>numMessagesIn := 1\<rparr>)
   \<and> map objectID (physicsObjects loadedPlugin) = [''o1''] \<and> obj strayMessage = ''o7''
   \<and> onMessage strayMessage loadedPlugin = Returned (loadedPlugin\<lparr>numMessagesIn := 1\<rparr>)
   \<and> onMessage_single echoMessage loadedPlugin_single = Returned (loadedPlugin_single\<lparr>numMessagesIn := 1\<rparr>)
   \<and> numMessagesIn (resultState (onMessage (remoteUpdate ''o1'' 9) loadedPlugin)) = 1"
proof -
  have n: "numMessagesIn loadedPlugin = 0" "numMessagesIn loadedPlugin_single = 0"
    by (simp_all add: loadedPlugin_def loadedPlugin_single_def)
  have ids: "objectID (fst sphereBuilt) = ''o1''" using sphereBuilt_eval by simp
  have e: "onMessage echoMessage loadedPlugin = Returned (loadedPlugin\<lparr>numMessagesIn := 1\<rparr>)"
    using onMessage_counts_and_discards[where data = echoMessage and p = loadedPlugin,
        THEN conjunct2, THEN conjunct1] n
    by (simp add: loadedPlugin_facts dropped_message_facts)
  have p: "onMessage pingMessage loadedPlugin = Returned (loadedPlugin\<lparr>numMessagesIn := 1\<rparr>)"
    using onMessage_counts_and_discards[where data = pingMessage and p = loadedPlugin,
        THEN conjunct2, THEN conjunct1] n
    by (simp add: loadedPlugin_facts dropped_message_facts)
  have s: "onMessage strayMessage loadedPlugin = Returned (loadedPlugin\<lparr>numMessagesIn := 1\<rparr>)"
    using onMessage_counts_and_discards[where data = strayMessage and p = loadedPlugin,
        THEN conjunct2, THEN conjunct1] n ids
    by (simp add: loadedPlugin_facts dropped_message_facts)
  have es: "onMessage_single echoMessage loadedPlugin_single
      = Returned (loadedPlugin_single\<lparr>numMessagesIn := 1\<rparr>)"
    using onMessage_counts_and_discards[where data = echoMessage and ps = loadedPlugin_single,
        THEN conjunct2, THEN conjunct2, THEN conjunct2] n
    by (simp add: loadedPlugin_facts dropped_message_facts)
  have k: "numMessagesIn (resultState (onMessage (remoteUpdate ''o1'' 9) loadedPlugin)) = 1"
    using onMessage_counts_and_discards[where data = "remoteUpdate ''o1'' 9" and p = loadedPlugin,
        THEN conjunct1] n
    by simp
  from e p s es k ids show ?thesis
    by (simp add: loadedPlugin_facts dropped_message_facts)
qed

subsection \<open>The end of a collision\<close>

lemma touchingPlugin_eval:
  "activeCollisions touchingPlugin =
     [\<lparr>colliderHandle1 = 1, colliderHandle2 = 2, object1 = None, object2 = Some ''o1''\<rparr>,
      \<lparr>colliderHandle1 = 2, colliderHandle2 = 0, object1 = Some ''o1'', object2 = None\<rparr>,
      \<lparr>colliderHandle1 = 2, colliderHandle2 = 1, object1 = Some ''o1'', object2 = None\<rparr>,
      \<lparr>colliderHandle1 = 0, colliderHandle2 = 1, object1 = None, object2 = None\<rparr>]"
  using sphereBuilt_eval
  by (simp add: touchingPlugin_def loadedPlugin_def onCollisionEvent_def Let_def didCollideWithUser_def)

text \<open>
  C6. For an event that a collision of the colliders \<open>h1\<close> and \<open>h2\<close> has ended, the list of
  active collisions afterwards is the list before without the records whose two handles
  are \<open>h1\<close> and \<open>h2\<close> in either order; the other records stay, in their order and as often
  as they were there. A record is in the list afterwards exactly when it was there before
  and its pair is not the pair of the event; in particular a record that shares only one
  handle with the event stays. Draining a queue that holds this one event does the same.
\<close>

theorem collision_end_removes_exactly_the_pair:
  "activeCollisions (onCollisionEvent h1 h2 False p) =
     filter (\<lambda>c. \<not> ((colliderHandle1 c = h1 \<and> colliderHandle2 c = h2)
                   \<or> (colliderHandle1 c = h2 \<and> colliderHandle2 c = h1))) (activeCollisions p)
   \<and> (\<forall>c. c \<in> set (activeCollisions (onCollisionEvent h1 h2 False p)) \<longleftrightarrow>
          c \<in> set (activeCollisions p)
          \<and> \<not> ((colliderHandle1 c = h1 \<and> colliderHandle2 c = h2)
               \<or> (colliderHandle1 c = h2 \<and> colliderHandle2 c = h1)))
   \<and> (\<forall>c. c \<in> set (activeCollisions p)
          \<and> (colliderHandle1 c \<notin> {h1, h2} \<or> colliderHandle2 c \<notin> {h1, h2})
        \<longrightarrow> c \<in> set (activeCollisions (onCollisionEvent h1 h2 False p)))
   \<and> activeCollisions (drainCollisionEvents [(h1, h2, False)] p)
        = activeCollisions (onCollisionEvent h1 h2 False p)"
  by (auto simp: onCollisionEvent_def Let_def samePair_def split: option.splits)

text \<open>
  C6, witness: of the four collisions, the end of the collision of colliders 1 and 2
  removes the two records of that pair (one in each order) and keeps the two records that
  share one handle with it.
\<close>

theorem collision_end_removes_exactly_the_pair_witness:
  "length (activeCollisions touchingPlugin) = 4
   \<and> activeCollisions (onCollisionEvent 1 2 False touchingPlugin) =
     [\<lparr>colliderHandle1 = 2, colliderHandle2 = 0, object1 = Some ''o1'', object2 = None\<rparr>,
      \<lparr>colliderHandle1 = 0, colliderHandle2 = 1, object1 = None, object2 = None\<rparr>]
   \<and> \<lparr>colliderHandle1 = 2, colliderHandle2 = 0, object1 = Some ''o1'', object2 = None\<rparr>
        \<in> set (activeCollisions touchingPlugin)
   \<and> (0::nat) \<notin> {1, 2}
   \<and> \<lparr>colliderHandle1 = 2, colliderHandle2 = 0, object1 = Some ''o1'', object2 = None\<rparr>
        \<in> set (activeCollisions (onCollisionEvent 1 2 False touchingPlugin))"
  using collision_end_removes_exactly_the_pair[where ?h1.0 = 1 and ?h2.0 = 2 and p = touchingPlugin,
      THEN conjunct1]
    collision_end_removes_exactly_the_pair[where ?h1.0 = 1 and ?h2.0 = 2 and p = touchingPlugin,
      THEN conjunct2, THEN conjunct2, THEN conjunct1, THEN spec,
      of "\<lparr>colliderHandle1 = 2, colliderHandle2 = 0, object1 = Some ''o1'', object2 = None\<rparr>"]
  by (simp add: touchingPlugin_eval)


subsection \<open>Building: modes and shapes\<close>

lemma attachOne_result:
  "attachOne sh b c e =
     (c\<lparr>body := Some b, colliders := [next_collider (world e)]\<rparr>,
      e\<lparr>world := (world e)\<lparr>wcolliders := (wcolliders (world e))(next_collider (world e) \<mapsto>
                      \<lparr>col_shape = sh, col_parent = Some b, col_active_events = COLLISION_EVENTS\<rparr>),
                    next_collider := Suc (next_collider (world e))\<rparr>\<rparr>)"
  by (simp add: attachOne_def createCollider_def installColliders_def setActiveEvents_def)

lemma removePhysics_objectID: "objectID (fst (removePhysics c e)) = objectID c"
  by (simp add: removePhysics_def split: option.splits)

lemma removePhysics_single_objectID: "objectID (fst (removePhysics_single c e)) = objectID c"
  by (simp add: removePhysics_single_def split: option.splits)

lemma createPhysics_unknown_shape:
  assumes "get_enabled (settings c)" "\<not> str_truthy (f_parent (objFields c))"
    "m = str_or (get_mode (settings c)) ''Static''" "m = ''Static'' \<or> m = ''Dynamic''"
    "t = resolveAutomatic (str_or (get_type (settings c)) ''Automatic'') (f_type (objFields c)) m"
    "t \<notin> {''Sphere'', ''Cube'', ''Cylinder'', ''Convex Hull'', ''Trimesh''}"
    "w0 = world (snd (removePhysics c e))"
  shows "\<exists>c' e'. createPhysics c e = Finished (c', e')
        \<and> body c' = Some (next_body w0) \<and> bodies (world e') (next_body w0) \<noteq> None
        \<and> colliders c' = [next_collider w0]
        \<and> wcolliders (world e') (next_collider w0) =
            Some \<lparr>col_shape = Cuboid 1 1 1, col_parent = Some (next_body w0),
                  col_active_events = COLLISION_EVENTS\<rparr>
        \<and> last (console e') = WarnUnknownShape (objectID c) t"
proof -
  obtain c1 e1 where r: "removePhysics c e = (c1, e1)" by (cases "removePhysics c e")
  have k: "settings c1 = settings c" "objFields c1 = objFields c" "objectID c1 = objectID c"
    using removePhysics_keeps[of c e] removePhysics_objectID[of c e] r by simp_all
  have w: "w0 = world e1" using assms(7) r by simp
  have md: "modeDesc m ms \<noteq> None" for ms using assms(4) by (auto simp: modeDesc_def)
  show ?thesis
    using assms(1-6) k md
    by (auto simp: createPhysics_def r w Let_def readSettings_def attachOne_result
        createRigidBody_def split: option.splits)
qed

lemma createPhysics_single_unknown_shape:
  assumes "get_enabled (settings c)" "\<not> str_truthy (f_parent (objFields c))"
    "m = str_or (get_mode (settings c)) ''Static''" "m = ''Static'' \<or> m = ''Dynamic''"
    "t = str_or (get_type (settings c)) ''Sphere''"
    "t \<notin> {''Sphere'', ''Cube'', ''Cylinder''}"
    "w0 = world (snd (removePhysics_single c e))"
  shows "body (fst (createPhysics_single c e)) = Some (next_body w0)
        \<and> bodies (world (snd (createPhysics_single c e))) (next_body w0) \<noteq> None
        \<and> collider (fst (createPhysics_single c e)) = collider (fst (removePhysics_single c e))
        \<and> (body c \<noteq> None \<or> collider c = None \<longrightarrow> collider (fst (createPhysics_single c e)) = None)
        \<and> wcolliders (world (snd (createPhysics_single c e))) = wcolliders w0
        \<and> last (console (snd (createPhysics_single c e))) = WarnUnknownShape (objectID c) t"
proof -
  obtain c1 e1 where r: "removePhysics_single c e = (c1, e1)" by (cases "removePhysics_single c e")
  have k: "settings c1 = settings c" "objFields c1 = objFields c" "objectID c1 = objectID c"
    using removePhysics_single_keeps[of c e] removePhysics_single_objectID[of c e] r by simp_all
  have nc: "body c \<noteq> None \<or> collider c = None \<longrightarrow> collider c1 = None"
    using r by (auto simp: removePhysics_single_def split: option.splits)
  have w: "w0 = world e1" using assms(7) r by simp
  have md: "modeDesc m ms \<noteq> None" for ms using assms(4) by (auto simp: modeDesc_def)
  show ?thesis
    using assms(1-6) k md nc
    by (auto simp: createPhysics_single_def r w Let_def readSettings_def
        createRigidBody_def split: option.splits)
qed

text \<open>
  C8, counterexample: the class with one collider has no fallback. Built with the shape
  \<open>Pyramid\<close>, the object gets a body, the warning is logged, and no collider is made or
  stored.
\<close>

theorem unknown_shape_without_fallback_single:
  "get_enabled (settings pyramidObject_single)
   \<and> shapeType (fst pyramidBuilt_single) = ''Pyramid''
   \<and> shapeType (fst pyramidBuilt_single) \<notin> {''Sphere'', ''Cube'', ''Cylinder'', ''ConvexHull'', ''Convex Hull'', ''Trimesh''}
   \<and> console (snd pyramidBuilt_single) = [DebugCreating ''o1'', WarnUnknownShape ''o1'' ''Pyramid'']
   \<and> body (fst pyramidBuilt_single) = Some 1
   \<and> collider (fst pyramidBuilt_single) = None
   \<and> next_collider (world (snd pyramidBuilt_single)) = next_collider loadedWorld"
  using pyramidBuilt_single_eval
  by (simp add: pyramidObject_single_def newComponent_single_def editorSettings_def)

text \<open>
  C8, as the code has it. In the class with a list of colliders, for an object that is
  enabled, not parented, and of mode \<open>Static\<close> or \<open>Dynamic\<close>, whose shape after the
  resolution of \<open>Automatic\<close> is none of \<open>Sphere\<close>, \<open>Cube\<close>, \<open>Cylinder\<close>, \<open>Convex Hull\<close>,
  \<open>Trimesh\<close>: the build finishes at once, its last log entry is the warning of the unknown
  shape, the object has a new body that is in the world, and exactly one collider, a cuboid
  of half-extents 1, 1, 1 attached to that body, with collision events enabled. In the
  class with one collider, for a shape that is none of \<open>Sphere\<close>, \<open>Cube\<close>, \<open>Cylinder\<close>, the
  object gets its body and the warning is logged, and no collider is made or stored.
\<close>

theorem unknown_shape_falls_back_to_cube:
  "(get_enabled (settings c) \<and> \<not> str_truthy (f_parent (objFields c))
     \<and> m = str_or (get_mode (settings c)) ''Static'' \<and> (m = ''Static'' \<or> m = ''Dynamic'')
     \<and> t = resolveAutomatic (str_or (get_type (settings c)) ''Automatic'') (f_type (objFields c)) m
     \<and> t \<notin> {''Sphere'', ''Cube'', ''Cylinder'', ''Convex Hull'', ''Trimesh''}
     \<and> w0 = world (snd (removePhysics c e))
    \<longrightarrow> (\<exists>c' e'. createPhysics c e = Finished (c', e')
        \<and> body c' = Some (next_body w0) \<and> bodies (world e') (next_body w0) \<noteq> None
        \<and> colliders c' = [next_collider w0]
        \<and> wcolliders (world e') (next_collider w0) =
            Some \<lparr>col_shape = Cuboid 1 1 1, col_parent = Some (next_body w0),
                  col_active_events = COLLISION_EVENTS\<rparr>
        \<and> last (console e') = WarnUnknownShape (objectID c) t))
   \<and> (get_enabled (settings cs) \<and> \<not> str_truthy (f_parent (objFields cs))
     \<and> ms = str_or (get_mode (settings cs)) ''Static'' \<and> (ms = ''Static'' \<or> ms = ''Dynamic'')
     \<and> ts = str_or (get_type (settings cs)) ''Sphere''
     \<and> ts \<notin> {''Sphere'', ''Cube'', ''Cylinder''}
     \<and> ws = world (snd (removePhysics_single cs e))
    \<longrightarrow> body (fst (createPhysics_single cs e)) = Some (next_body ws)
        \<and> bodies (world (snd (createPhysics_single cs e))) (next_body ws) \<noteq> None
        \<and> collider (fst (createPhysics_single cs e)) = collider (fst (removePhysics_single cs e))
        \<and> (body cs \<noteq> None \<or> collider cs = None \<longrightarrow> collider (fst (createPhysics_single cs e)) = None)
        \<and> wcolliders (world (snd (createPhysics_single cs e))) = wcolliders ws
        \<and> last (console (snd (createPhysics_single cs e))) = WarnUnknownShape (objectID cs) ts)"
  using createPhysics_unknown_shape[of c m t w0 e] createPhysics_single_unknown_shape[of cs ms ts ws e]
  by blast

lemma pyramidObject_facts:
  "get_enabled (settings pyramidObject)" "\<not> str_truthy (f_parent (objFields pyramidObject))"
  "str_or (get_mode (settings pyramidObject)) ''Static'' = ''Dynamic''"
  "resolveAutomatic (str_or (get_type (settings pyramidObject)) ''Automatic'')
      (f_type (objFields pyramidObject)) ''Dynamic'' = ''Pyramid''"
  "world (snd (removePhysics pyramidObject loadedEnv)) = loadedWorld"
  "next_body loadedWorld = 1" "next_collider loadedWorld = 2" "objectID pyramidObject = ''o1''"
  by (simp_all add: pyramidObject_def example_defs)

text \<open>
  C8, witness: the dynamic object of shape \<open>Pyramid\<close>, built in the loaded world, has body
  1 and the one collider 2, the cuboid.
\<close>

theorem unknown_shape_falls_back_to_cube_witness:
  "get_enabled (settings pyramidObject) \<and> \<not> str_truthy (f_parent (objFields pyramidObject))
   \<and> ''Pyramid'' \<notin> {''Sphere'', ''Cube'', ''Cylinder'', ''Convex Hull'', ''Trimesh''}
   \<and> body (fst (stateOf (createPhysics pyramidObject loadedEnv))) = Some 1
   \<and> colliders (fst (stateOf (createPhysics pyramidObject loadedEnv))) = [2]
   \<and> wcolliders (world (snd (stateOf (createPhysics pyramidObject loadedEnv)))) 2 =
        Some \<lparr>col_shape = Cuboid 1 1 1, col_parent = Some 1, col_active_events = COLLISION_EVENTS\<rparr>
   \<and> last (console (snd (stateOf (createPhysics pyramidObject loadedEnv)))) = WarnUnknownShape ''o1'' ''Pyramid''
   \<and> ''Pyramid'' \<notin> {''Sphere'', ''Cube'', ''Cylinder''}
   \<and> body (fst (createPhysics_single pyramidObject_single loadedEnv)) = Some 1
   \<and> collider (fst (createPhysics_single pyramidObject_single loadedEnv)) = None"
proof -
  have single: "body (fst (createPhysics_single pyramidObject_single loadedEnv)) = Some 1
      \<and> collider (fst (createPhysics_single pyramidObject_single loadedEnv)) = None"
    using unknown_shape_falls_back_to_cube[where cs = pyramidObject_single and e = loadedEnv
        and ms = "''Dynamic''" and ts = "''Pyramid''" and ws = loadedWorld, THEN conjunct2]
    by (simp add: pyramidObject_single_def newComponent_single_def plainFields_def
        editorSettings_def removePhysics_single_def str_or_def str_truthy_def loadedEnv_def
        loadedWorld_def emptyWorld_def createCollider_def createRigidBody_def setActiveEvents_def)
  have "\<exists>c' e'. createPhysics pyramidObject loadedEnv = Finished (c', e')
        \<and> body c' = Some (next_body loadedWorld) \<and> bodies (world e') (next_body loadedWorld) \<noteq> None
        \<and> colliders c' = [next_collider loadedWorld]
        \<and> wcolliders (world e') (next_collider loadedWorld) =
            Some \<lparr>col_shape = Cuboid 1 1 1, col_parent = Some (next_body loadedWorld),
                  col_active_events = COLLISION_EVENTS\<rparr>
        \<and> last (console e') = WarnUnknownShape (objectID pyramidObject) ''Pyramid''"
    using unknown_shape_falls_back_to_cube[where c = pyramidObject and e = loadedEnv
        and m = "''Dynamic''" and t = "''Pyramid''" and ?w0.0 = loadedWorld, THEN conjunct1]
      pyramidObject_facts(1-5)
    by simp
  then obtain c' e' where "createPhysics pyramidObject loadedEnv = Finished (c', e')"
    "body c' = Some (next_body loadedWorld)" "colliders c' = [next_collider loadedWorld]"
    "wcolliders (world e') (next_collider loadedWorld) =
       Some \<lparr>col_shape = Cuboid 1 1 1, col_parent = Some (next_body loadedWorld),
             col_active_events = COLLISION_EVENTS\<rparr>"
    "last (console e') = WarnUnknownShape (objectID pyramidObject) ''Pyramid''"
    by blast
  then show ?thesis using pyramidObject_facts single by simp
qed

lemma placeDesc_kind: "rb_kind (placeDesc f lock d) = rb_kind d"
  by (simp add: placeDesc_def Let_def)

lemma attachOne_bodies:
  "bodies (world (snd (attachOne sh b c e))) = bodies (world e)"
  "body (fst (attachOne sh b c e)) = Some b"
  by (simp_all add: attachOne_result)

text \<open>
  The modes the code knows: for an enabled object that is not parented, \<open>Static\<close> gives a
  fixed body and \<open>Dynamic\<close> a dynamic one, created in the world under the next handle; the
  component holds it when the build finishes, and the build holds it while it waits for
  the vertices.
\<close>

lemma createPhysics_known_mode:
  assumes "get_enabled (settings c)" "\<not> str_truthy (f_parent (objFields c))"
    "m = str_or (get_mode (settings c)) ''Static''" "m = ''Static'' \<or> m = ''Dynamic''"
    "w0 = world (snd (removePhysics c e))"
  shows "map_option rb_kind (bodies (world (snd (stateOf (createPhysics c e)))) (next_body w0))
           = Some (if m = ''Static'' then Fixed else DynamicBody)
       \<and> (case createPhysics c e of
           Finished s \<Rightarrow> body (fst s) = Some (next_body w0)
         | Awaiting k b s \<Rightarrow> b = next_body w0)"
proof -
  obtain c1 e1 where r: "removePhysics c e = (c1, e1)" by (cases "removePhysics c e")
  have k: "get_enabled (settings c1)" "\<not> str_truthy (f_parent (objFields c1))"
    "str_or (get_mode (settings c1)) ''Static'' = m"
    using removePhysics_keeps[of c e] r assms(1-3) by simp_all
  have w: "w0 = world e1" using assms(5) r by simp
  obtain d where d: "modeDesc m (max (1 / 100) (num_or (get_mass (settings c1)) 1)) = Some d"
    "rb_kind d = (if m = ''Static'' then Fixed else DynamicBody)"
    using assms(4) by (auto simp: modeDesc_def body_desc_def)
  show ?thesis
    unfolding createPhysics_def r w
    by (simp add: k d Let_def readSettings_def createRigidBody_def attachOne_bodies placeDesc_kind)
qed


lemma modeObject_facts:
  "get_enabled (settings (modeObject m))" "f_parent (objFields (modeObject m)) = None"
  "get_mode (settings (modeObject m)) = Some m" "body (modeObject m) = None"
  "get_enabled (settings (modeObject_single m))" "f_parent (objFields (modeObject_single m)) = None"
  "get_mode (settings (modeObject_single m)) = Some m" "body (modeObject_single m) = None"
  by (simp_all add: modeObject_def modeObject_single_def example_defs)

text \<open>
  C7, at the input where the code departs from it: an enabled object, not parented, set to
  the mode \<open>Kinematic\<close> (one of the three modes the settings of the component offer).
  \<^verbatim>\<open>createPhysics\<close> logs \<^verbatim>\<open>Unknown mode\<close> and creates no body: the object is left
  inactive, in both classes. The same object set to \<open>Static\<close> gets a fixed body and set to
  \<open>Dynamic\<close> a dynamic one.
\<close>

theorem kinematic_mode_is_unknown:
  "get_enabled (settings (modeObject ''Kinematic''))
   \<and> f_parent (objFields (modeObject ''Kinematic'')) = None
   \<and> get_mode (settings (modeObject ''Kinematic'')) = Some ''Kinematic''
   \<and> createPhysics (modeObject ''Kinematic'') loadedEnv =
       Finished ((modeObject ''Kinematic'')\<lparr>mode := ''Kinematic'', synchronized := True, mass := 2\<rparr>,
                 loadedEnv\<lparr>console := [DebugCreating ''o3'', WarnUnknownMode ''o3'' ''Kinematic'']\<rparr>)
   \<and> body (fst (stateOf (createPhysics (modeObject ''Kinematic'') loadedEnv))) = None
   \<and> createPhysics_single (modeObject_single ''Kinematic'') loadedEnv =
       ((modeObject_single ''Kinematic'')\<lparr>mode := ''Kinematic'', synchronized := True, mass := 2\<rparr>,
        loadedEnv\<lparr>console := [DebugCreating ''o3'', WarnUnknownMode ''o3'' ''Kinematic'']\<rparr>)
   \<and> body (fst (createPhysics_single (modeObject_single ''Kinematic'') loadedEnv)) = None
   \<and> map_option rb_kind (bodies (world (snd (stateOf (createPhysics (modeObject ''Static'') loadedEnv)))) 1)
       = Some Fixed
   \<and> body (fst (stateOf (createPhysics (modeObject ''Static'') loadedEnv))) = Some 1
   \<and> map_option rb_kind (bodies (world (snd (stateOf (createPhysics (modeObject ''Dynamic'') loadedEnv)))) 1)
       = Some DynamicBody
   \<and> body (fst (stateOf (createPhysics (modeObject ''Dynamic'') loadedEnv))) = Some 1"
  by (simp add: modeObject_def modeObject_single_def example_defs)


subsection \<open>Removing and rebuilding\<close>

lemma removePhysics_without_body:
  "body c = None \<Longrightarrow> removePhysics c e = (c, e)"
  "body cs = None \<Longrightarrow> removePhysics_single cs e = (cs, e)"
  by (simp_all add: removePhysics_def removePhysics_single_def)

lemma removePhysics_clears:
  "body (fst (removePhysics c e)) = None"
  "body c \<noteq> None \<or> colliders c = [] \<Longrightarrow> colliders (fst (removePhysics c e)) = []"
  "body (fst (removePhysics_single cs e)) = None"
  "body cs \<noteq> None \<or> collider cs = None \<Longrightarrow> collider (fst (removePhysics_single cs e)) = None"
  by (auto simp: removePhysics_def removePhysics_single_def split: option.splits)

lemma removePhysics_idempotent:
  "removePhysics (fst (removePhysics c e)) (snd (removePhysics c e)) = removePhysics c e"
  "removePhysics_single (fst (removePhysics_single cs e)) (snd (removePhysics_single cs e))
     = removePhysics_single cs e"
  by (simp_all add: removePhysics_without_body removePhysics_clears)

lemma removePhysics_drops_body:
  "body c = Some b \<Longrightarrow> bodies (world (snd (removePhysics c e))) b = None"
  by (simp add: removePhysics_def removeRigidBody_def)

text \<open>An object without a body has no colliders: every step of a build keeps this.\<close>

lemma no_body_no_colliders_kept:
  assumes "body c = None \<longrightarrow> colliders c = []"
  shows "body (fst (stateOf (createPhysics c e))) = None \<longrightarrow> colliders (fst (stateOf (createPhysics c e))) = []"
    and "body (fst (createPhysics_resume k b ms c e)) = None \<longrightarrow> colliders (fst (createPhysics_resume k b ms c e)) = []"
    and "body (fst (removePhysics c e)) = None \<longrightarrow> colliders (fst (removePhysics c e)) = []"
proof -
  obtain c1 e1 where r: "removePhysics c e = (c1, e1)" by (cases "removePhysics c e")
  have c1: "colliders c1 = []" "body c1 = None"
    using assms r by (auto simp: removePhysics_def split: option.splits)
  show "body (fst (stateOf (createPhysics c e))) = None \<longrightarrow> colliders (fst (stateOf (createPhysics c e))) = []"
    using c1
    by (simp add: createPhysics_def r Let_def readSettings_def attachOne_def installColliders_def
        split: option.splits prod.splits)
  show "body (fst (createPhysics_resume k b ms c e)) = None \<longrightarrow> colliders (fst (createPhysics_resume k b ms c e)) = []"
    by (simp add: createPhysics_resume_def installColliders_def split: prod.splits)
  show "body (fst (removePhysics c e)) = None \<longrightarrow> colliders (fst (removePhysics c e)) = []"
    using c1 r by simp
qed

lemmas race_defs = rebuildDuringBuild_def hullObject_def tetrahedron_def createPhysics_resume_def
  meshShape_def

text \<open>
  C9, at the input where the code departs from it: a dynamic object with a convex hull is
  loaded and, before the vertices of that build arrive, updated, so \<^verbatim>\<open>createPhysics\<close>
  runs again. The second call finds no body to remove, because the first call keeps its
  body in a local variable until the vertices arrive; it creates a second body. When the
  builds resume in their order, the component ends with body 2 and collider 3, and the
  world still holds body 1 with collider 2, which no component refers to and which
  \<^verbatim>\<open>removePhysics\<close> does not remove. When they resume in the other order, the component
  ends with body 1, the body of the superseded build, and body 2 stays in the world.
\<close>

theorem rebuild_during_build_leaves_two_bodies:
  "body (fst (rebuildDuringBuild True hullObject loadedEnv tetrahedron)) = Some 2
   \<and> colliders (fst (rebuildDuringBuild True hullObject loadedEnv tetrahedron)) = [3]
   \<and> map_option rb_kind (bodies (world (snd (rebuildDuringBuild True hullObject loadedEnv tetrahedron))) 1)
       = Some DynamicBody
   \<and> map_option rb_kind (bodies (world (snd (rebuildDuringBuild True hullObject loadedEnv tetrahedron))) 2)
       = Some DynamicBody
   \<and> map_option col_parent (wcolliders (world (snd (rebuildDuringBuild True hullObject loadedEnv tetrahedron))) 2)
       = Some (Some 1)
   \<and> map_option col_parent (wcolliders (world (snd (rebuildDuringBuild True hullObject loadedEnv tetrahedron))) 3)
       = Some (Some 2)
   \<and> map_option rb_kind (bodies (world (snd (removePhysics
         (fst (rebuildDuringBuild True hullObject loadedEnv tetrahedron))
         (snd (rebuildDuringBuild True hullObject loadedEnv tetrahedron))))) 1) = Some DynamicBody
   \<and> body (fst (rebuildDuringBuild False hullObject loadedEnv tetrahedron)) = Some 1
   \<and> colliders (fst (rebuildDuringBuild False hullObject loadedEnv tetrahedron)) = [3]
   \<and> map_option rb_kind (bodies (world (snd (rebuildDuringBuild False hullObject loadedEnv tetrahedron))) 2)
       = Some DynamicBody"
  by (simp add: race_defs example_defs removeRigidBody_def)


end
